theory Spec2Isabelle
  imports Complex_Main
begin

section \<open>Data model of the weather collection pipeline\<close>

text \<open>
  The embedding follows \<^verbatim>\<open>src/data_collection/weather_collector.py\<close> and
  \<^verbatim>\<open>src/data_collection/scheduler.py\<close>.

  The humidity, the wind direction, the visibility and the cloud cover are Python
  numbers, an \<^verbatim>\<open>int\<close> or a \<^verbatim>\<open>float\<close> with its rounding, its infinities and its
  \<^verbatim>\<open>NaN\<close> (section \<open>Python numbers\<close>). Every other JSON number (coordinates,
  temperatures, pressure, wind speed, epoch seconds) is modelled as a \<^typ>\<open>real\<close>;
  for Python floats this is an idealisation (no rounding, no NaN, no infinity). A
  \<^verbatim>\<open>datetime\<close> is an integer count of microseconds; the local time zone is left to
  the environment's \<^verbatim>\<open>fromtimestamp\<close>.
\<close>

type_synonym number = real
type_synonym datetime = int

text \<open>The exceptions that the collector's \<^verbatim>\<open>except Exception\<close> clauses meet.\<close>

datatype exn =
    RequestError
  | KeyError string
  | ValueError
  | IntegrityError
  | OperationalError
  | OverflowError

section \<open>Python numbers\<close>

text \<open>
  The humidity, the wind direction, the visibility and the cloud cover arrive as
  whatever number the JSON text holds; the code converts none of them. Python parses a
  literal without fraction or exponent as an \<^verbatim>\<open>int\<close> and any other as a
  \<^verbatim>\<open>float\<close>, which may be infinite (\<^verbatim>\<open>1e999\<close>) or \<^verbatim>\<open>NaN\<close>. \<open>Finite x\<close> is
  the double whose value is \<open>x\<close>; the sign of a zero is not kept.
\<close>

datatype pyfloat = Finite real | PosInf | NegInf | NaN

datatype pynum = PInt int | PFloat pyfloat

text \<open>
  Rounding to the nearest double, ties to the even significand. \<open>binade x\<close> is the
  least exponent \<open>e\<close> from \<open>-1022\<close> on with \<open>\<bar>x\<bar> < 2 ^ (e + 1)\<close>, and \<open>1024\<close>
  when there is none below; the doubles of that binade are the multiples of
  \<open>2 ^ (e - 52)\<close>. A result of magnitude \<open>2 ^ 1024\<close> or more is infinite.
\<close>

fun binade_up :: "nat \<Rightarrow> int \<Rightarrow> real \<Rightarrow> int" where
  "binade_up 0 e a = e"
| "binade_up (Suc n) e a = (if a < 2 powi (e + 1) then e else binade_up n (e + 1) a)"

definition binade :: "real \<Rightarrow> int" where
  "binade x = binade_up 2046 (- 1022) \<bar>x\<bar>"

definition round_half_even :: "real \<Rightarrow> int" where
  "round_half_even x =
     (let f = \<lfloor>x\<rfloor>; r = x - of_int f
      in if r < 1 / 2 then f
         else if 1 / 2 < r then f + 1
         else if even f then f else f + 1)"

definition fl :: "real \<Rightarrow> pyfloat" where
  "fl x =
     (let q = binade x - 52;
          y = of_int (round_half_even (x / 2 powi q)) * 2 powi q
      in if 2 powi 1024 \<le> \<bar>y\<bar> then (if 0 < x then PosInf else NegInf) else Finite y)"

text \<open>The sum of two floats.\<close>

fun float_add :: "pyfloat \<Rightarrow> pyfloat \<Rightarrow> pyfloat" where
  "float_add NaN g = NaN"
| "float_add f NaN = NaN"
| "float_add PosInf NegInf = NaN"
| "float_add NegInf PosInf = NaN"
| "float_add PosInf g = PosInf"
| "float_add f PosInf = PosInf"
| "float_add NegInf g = NegInf"
| "float_add f NegInf = NegInf"
| "float_add (Finite x) (Finite y) = fl (x + y)"

text \<open>
  An \<^verbatim>\<open>int\<close> that meets a \<^verbatim>\<open>float\<close> is converted first; the conversion raises
  \<^verbatim>\<open>OverflowError\<close> when the integer is too large for a double.
\<close>

definition int_to_float :: "int \<Rightarrow> exn + pyfloat" where
  "int_to_float n = (case fl (of_int n) of Finite y \<Rightarrow> Inr (Finite y) | g \<Rightarrow> Inl OverflowError)"

fun py_add :: "pynum \<Rightarrow> pynum \<Rightarrow> exn + pynum" where
  "py_add (PInt a) (PInt b) = Inr (PInt (a + b))"
| "py_add (PFloat f) (PInt b) =
     (case int_to_float b of Inl x \<Rightarrow> Inl x | Inr g \<Rightarrow> Inr (PFloat (float_add f g)))"
| "py_add (PInt a) (PFloat g) =
     (case int_to_float a of Inl x \<Rightarrow> Inl x | Inr f \<Rightarrow> Inr (PFloat (float_add f g)))"
| "py_add (PFloat f) (PFloat g) = Inr (PFloat (float_add f g))"

text \<open>
  Comparison is by exact value, also between an \<^verbatim>\<open>int\<close> and a \<^verbatim>\<open>float\<close>;
  every comparison with \<^verbatim>\<open>NaN\<close> is false.
\<close>

fun float_lt :: "pyfloat \<Rightarrow> pyfloat \<Rightarrow> bool" where
  "float_lt NaN g = False"
| "float_lt f NaN = False"
| "float_lt (Finite x) (Finite y) = (x < y)"
| "float_lt f NegInf = False"
| "float_lt NegInf g = True"
| "float_lt PosInf g = False"
| "float_lt f PosInf = True"

fun float_le :: "pyfloat \<Rightarrow> pyfloat \<Rightarrow> bool" where
  "float_le NaN g = False"
| "float_le f NaN = False"
| "float_le (Finite x) (Finite y) = (x \<le> y)"
| "float_le NegInf g = True"
| "float_le f NegInf = False"
| "float_le f PosInf = True"
| "float_le PosInf g = False"

fun exact :: "pynum \<Rightarrow> pyfloat" where
  "exact (PInt n) = Finite (of_int n)"
| "exact (PFloat f) = f"

definition py_lt :: "pynum \<Rightarrow> pynum \<Rightarrow> bool" where
  "py_lt a b = float_lt (exact a) (exact b)"

definition py_le :: "pynum \<Rightarrow> pynum \<Rightarrow> bool" where
  "py_le a b = float_le (exact a) (exact b)"

text \<open>
  \<^verbatim>\<open>min(a, b)\<close> and \<^verbatim>\<open>max(a, b)\<close> keep the first argument unless the second is
  smaller, respectively larger.
\<close>

definition py_min :: "pynum \<Rightarrow> pynum \<Rightarrow> pynum" where
  "py_min a b = (if py_lt b a then b else a)"

definition py_max :: "pynum \<Rightarrow> pynum \<Rightarrow> pynum" where
  "py_max a b = (if py_lt a b then b else a)"

text \<open>
  \<^verbatim>\<open>v % m\<close> for a positive integer \<open>m\<close> that is a double, such as \<open>360\<close>. On
  integers it is \<open>mod\<close>. On floats the remainder of the division truncated towards
  zero is exact and has the sign of \<open>v\<close>; when it is negative, \<open>m\<close> is added to it, and
  that sum is rounded. The remainder of an infinite value or of \<^verbatim>\<open>NaN\<close> is
  \<^verbatim>\<open>NaN\<close>.
\<close>

definition trunc :: "real \<Rightarrow> int" where
  "trunc x = (if x < 0 then \<lceil>x\<rceil> else \<lfloor>x\<rfloor>)"

definition float_rem :: "pyfloat \<Rightarrow> real \<Rightarrow> pyfloat" where
  "float_rem f m =
     (case f of
        Finite x \<Rightarrow>
          (let r = x - m * of_int (trunc (x / m))
           in if r = 0 then Finite 0
              else if r < 0 then fl (r + m)
              else Finite r)
      | g \<Rightarrow> NaN)"

fun py_mod :: "pynum \<Rightarrow> int \<Rightarrow> pynum" where
  "py_mod (PInt n) m = PInt (n mod m)"
| "py_mod (PFloat f) m = PFloat (float_rem f (of_int m))"

text \<open>\<^verbatim>\<open>.get(key, 0)\<close> on such a field.\<close>

definition py_default :: "pynum option \<Rightarrow> pynum" where
  "py_default v = (case v of None \<Rightarrow> PInt 0 | Some x \<Rightarrow> x)"

section \<open>Records, responses and the world\<close>

text \<open>The dictionary returned by \<^verbatim>\<open>get_city_coordinates\<close>.\<close>

record coords =
  c_city :: string
  c_country :: string
  c_lat :: number
  c_lon :: number

text \<open>
  Rows of the three tables created by \<^verbatim>\<open>init_database\<close>. The position of a row in
  its list stands for the auto-increment \<^verbatim>\<open>id\<close>; the defaulted column
  \<^verbatim>\<open>created_at\<close> is written by no statement of the collector and is left out.
\<close>

record city_coordinate =
  cc_city :: string
  cc_country :: string
  cc_latitude :: number
  cc_longitude :: number

record current_row =
  cw_city :: string
  cw_country :: string
  cw_latitude :: number
  cw_longitude :: number
  cw_timestamp :: datetime
  cw_temperature :: number
  cw_feels_like :: number
  cw_humidity :: pynum
  cw_pressure :: number
  cw_wind_speed :: number
  cw_wind_direction :: pynum
  cw_visibility :: pynum
  cw_cloud_cover :: pynum
  cw_weather_main :: string
  cw_weather_description :: string
  cw_sunrise :: datetime
  cw_sunset :: datetime

record historical_row =
  hw_city :: string
  hw_latitude :: number
  hw_longitude :: number
  hw_timestamp :: datetime
  hw_temperature :: number
  hw_feels_like :: number
  hw_humidity :: pynum
  hw_pressure :: number
  hw_wind_speed :: number
  hw_wind_direction :: pynum
  hw_cloud_cover :: pynum
  hw_weather_main :: string
  hw_weather_description :: string

text \<open>
  One entry of the geocoding endpoint's answer, and the answer itself:
  \<open>GeoError\<close> stands for every exception raised between the request and the
  construction of \<^verbatim>\<open>coords\<close> (connection failure, HTTP status, malformed JSON,
  missing key).
\<close>

record geo_entry =
  g_name :: string
  g_country :: string
  g_lat :: number
  g_lon :: number

datatype geo_result = GeoError exn | GeoOk "geo_entry list"

text \<open>
  The JSON object of the current-weather endpoint. A field is \<open>None\<close> when the key
  (or the object or list element holding it) is absent.
\<close>

record weather_json =
  j_dt :: "number option"
  j_temp :: "number option"
  j_feels_like :: "number option"
  j_humidity :: "pynum option"
  j_pressure :: "number option"
  j_wind_speed :: "number option"
  j_wind_deg :: "pynum option"
  j_visibility :: "pynum option"
  j_clouds_all :: "pynum option"
  j_weather_main :: "string option"
  j_weather_description :: "string option"
  j_sunrise :: "number option"
  j_sunset :: "number option"

datatype http_result = HttpError exn | HttpOk weather_json

text \<open>
  What the process does to the outside world, in order: SQL statements, HTTP requests
  and sleeps. The number of events so far is the time at which the environment is asked.
\<close>

datatype event =
    DbSelectCity string
  | DbInsertCity
  | DbInsertCurrent
  | DbInsertHistorical
  | DbReadCurrent
  | DbReadHistorical
  | GeoCall string
  | WeatherCall number number
  | Sleep number

text \<open>One constructor for each logging statement of the two modules.\<close>

datatype log_entry =
    ErrCoordinates string exn
  | ErrNoCoordinates string
  | InfoCollectedCurrent string
  | ErrCurrent string exn
  | ErrHistorical string nat exn
  | InfoCollectedHistorical nat int string
  | InfoStartCycle
  | ErrCycle string exn
  | InfoCompleted nat nat
  | InfoExported "string list"

datatype csv = CurrentCsv "current_row list" | HistoricalCsv "historical_row list"

text \<open>
  The environment: the two remote endpoints, the faults of the database file, the
  clock, \<^verbatim>\<open>datetime.fromtimestamp\<close> and \<^verbatim>\<open>Config.API_DELAY_SECONDS\<close>. The
  endpoints and the faults depend on the time of the request: \<open>db_fault e t\<close> says that
  the SQL statement issued at time \<open>t\<close> raises \<^verbatim>\<open>sqlite3.OperationalError\<close>
  (a locked, missing or unreadable database).
\<close>

record env =
  geocode :: "nat \<Rightarrow> string \<Rightarrow> geo_result"
  weather :: "nat \<Rightarrow> number \<Rightarrow> number \<Rightarrow> http_result"
  db_fault :: "nat \<Rightarrow> bool"
  now :: "nat \<Rightarrow> datetime"
  fromtimestamp :: "number \<Rightarrow> datetime option"
  api_delay :: number

record world =
  city_coordinates :: "city_coordinate list"
  current_weather :: "current_row list"
  historical_weather :: "historical_row list"
  events :: "event list"
  logged :: "log_entry list"
  files :: "string \<rightharpoonup> csv"

definition tick :: "world \<Rightarrow> nat" where
  "tick w = length (events w)"

definition emit :: "event \<Rightarrow> world \<Rightarrow> world" where
  "emit e w = w\<lparr>events := events w @ [e]\<rparr>"

definition logline :: "log_entry \<Rightarrow> world \<Rightarrow> world" where
  "logline l w = w\<lparr>logged := logged w @ [l]\<rparr>"

section \<open>Coordinate resolution\<close>

text \<open>
  \<^verbatim>\<open>get_city_coordinates\<close>. The \<^verbatim>\<open>SELECT\<close> stands outside the \<^verbatim>\<open>try\<close>, so a
  database fault there leaves the function as an exception (\<open>Inl\<close>). The cache is
  read with the argument \<open>city\<close>; the row is inserted under the name the endpoint
  returned. The \<^verbatim>\<open>INSERT\<close> fails on a database fault and on a second row for the
  primary key; both are caught, logged, and the function returns \<^verbatim>\<open>None\<close>. An empty
  answer returns \<^verbatim>\<open>None\<close> without a log line.
\<close>

definition get_city_coordinates :: "env \<Rightarrow> world \<Rightarrow> string \<Rightarrow> (exn + coords option) \<times> world" where
  "get_city_coordinates e w city =
     (let w1 = emit (DbSelectCity city) w in
      if db_fault e (tick w) then (Inl OperationalError, w1)
      else
        (case find (\<lambda>r. cc_city r = city) (city_coordinates w1) of
           Some r \<Rightarrow>
             (Inr (Some \<lparr>c_city = cc_city r, c_country = cc_country r,
                         c_lat = cc_latitude r, c_lon = cc_longitude r\<rparr>), w1)
         | None \<Rightarrow>
             (let w2 = emit (GeoCall city) w1 in
              case geocode e (tick w1) city of
                GeoError x \<Rightarrow> (Inr None, logline (ErrCoordinates city x) w2)
              | GeoOk [] \<Rightarrow> (Inr None, w2)
              | GeoOk (d # ds) \<Rightarrow>
                  (let co = \<lparr>c_city = g_name d, c_country = g_country d,
                             c_lat = g_lat d, c_lon = g_lon d\<rparr>;
                       w3 = emit DbInsertCity w2
                   in if db_fault e (tick w2)
                      then (Inr None, logline (ErrCoordinates city OperationalError) w3)
                      else if list_ex (\<lambda>r. cc_city r = c_city co) (city_coordinates w3)
                      then (Inr None, logline (ErrCoordinates city IntegrityError) w3)
                      else (Inr (Some co),
                            w3\<lparr>city_coordinates := city_coordinates w3 @
                                 [\<lparr>cc_city = c_city co, cc_country = c_country co,
                                   cc_latitude = c_lat co, cc_longitude = c_lon co\<rparr>]\<rparr>)))))"

section \<open>Current weather\<close>

definition require :: "string \<Rightarrow> 'a option \<Rightarrow> exn + 'a" where
  "require k v = (case v of None \<Rightarrow> Inl (KeyError k) | Some x \<Rightarrow> Inr x)"

definition to_datetime :: "env \<Rightarrow> number \<Rightarrow> exn + datetime" where
  "to_datetime e s = (case fromtimestamp e s of None \<Rightarrow> Inl ValueError | Some t \<Rightarrow> Inr t)"

definition and_then :: "exn + 'a \<Rightarrow> ('a \<Rightarrow> exn + 'b) \<Rightarrow> exn + 'b" where
  "and_then r f = (case r of Inl x \<Rightarrow> Inl x | Inr v \<Rightarrow> f v)"

definition with_default :: "'a::zero option \<Rightarrow> 'a" where
  "with_default v = (case v of None \<Rightarrow> 0 | Some x \<Rightarrow> x)"

text \<open>
  The dictionary \<^verbatim>\<open>weather_data\<close> of \<^verbatim>\<open>collect_current_weather\<close>, its entries
  evaluated in the order they are written. The wind and the visibility have the default
  \<open>0\<close>; every other key is required.
\<close>

definition weather_data :: "env \<Rightarrow> coords \<Rightarrow> weather_json \<Rightarrow> exn + current_row" where
  "weather_data e co d =
     and_then (require ''dt'' (j_dt d)) (\<lambda>dt.
     and_then (to_datetime e dt) (\<lambda>ts.
     and_then (require ''temp'' (j_temp d)) (\<lambda>temp.
     and_then (require ''feels_like'' (j_feels_like d)) (\<lambda>feels.
     and_then (require ''humidity'' (j_humidity d)) (\<lambda>hum.
     and_then (require ''pressure'' (j_pressure d)) (\<lambda>pres.
     and_then (require ''clouds'' (j_clouds_all d)) (\<lambda>clouds.
     and_then (require ''main'' (j_weather_main d)) (\<lambda>wmain.
     and_then (require ''description'' (j_weather_description d)) (\<lambda>wdesc.
     and_then (require ''sunrise'' (j_sunrise d)) (\<lambda>sr.
     and_then (to_datetime e sr) (\<lambda>sunrise.
     and_then (require ''sunset'' (j_sunset d)) (\<lambda>ss.
     and_then (to_datetime e ss) (\<lambda>sunset.
       Inr \<lparr>cw_city = c_city co, cw_country = c_country co,
            cw_latitude = c_lat co, cw_longitude = c_lon co,
            cw_timestamp = ts, cw_temperature = temp, cw_feels_like = feels,
            cw_humidity = hum, cw_pressure = pres,
            cw_wind_speed = with_default (j_wind_speed d),
            cw_wind_direction = py_default (j_wind_deg d),
            cw_visibility = py_default (j_visibility d),
            cw_cloud_cover = clouds, cw_weather_main = wmain,
            cw_weather_description = wdesc,
            cw_sunrise = sunrise, cw_sunset = sunset\<rparr>)))))))))))))"

text \<open>\<^verbatim>\<open>store_current_weather\<close>: one \<^verbatim>\<open>INSERT\<close>, which a database fault makes raise.\<close>

definition store_current_weather :: "env \<Rightarrow> world \<Rightarrow> current_row \<Rightarrow> exn option \<times> world" where
  "store_current_weather e w row =
     (let w1 = emit DbInsertCurrent w in
      if db_fault e (tick w) then (Some OperationalError, w1)
      else (None, w1\<lparr>current_weather := current_weather w1 @ [row]\<rparr>))"

text \<open>
  \<^verbatim>\<open>collect_current_weather\<close>. The call of \<^verbatim>\<open>get_city_coordinates\<close> is outside
  the \<^verbatim>\<open>try\<close>; the request, the extraction and the store are inside it and share one
  handler, which logs and returns \<^verbatim>\<open>False\<close>.
\<close>

definition collect_current_weather :: "env \<Rightarrow> world \<Rightarrow> string \<Rightarrow> (exn + bool) \<times> world" where
  "collect_current_weather e w city =
     (case get_city_coordinates e w city of
        (Inl x, w1) \<Rightarrow> (Inl x, w1)
      | (Inr None, w1) \<Rightarrow> (Inr False, logline (ErrNoCoordinates city) w1)
      | (Inr (Some co), w1) \<Rightarrow>
          (let w2 = emit (WeatherCall (c_lat co) (c_lon co)) w1 in
           case weather e (tick w1) (c_lat co) (c_lon co) of
             HttpError x \<Rightarrow> (Inr False, logline (ErrCurrent city x) w2)
           | HttpOk d \<Rightarrow>
               (case weather_data e co d of
                  Inl x \<Rightarrow> (Inr False, logline (ErrCurrent city x) w2)
                | Inr row \<Rightarrow>
                    (case store_current_weather e w2 row of
                       (Some x, w3) \<Rightarrow> (Inr False, logline (ErrCurrent city x) w3)
                     | (None, w3) \<Rightarrow> (Inr True, logline (InfoCollectedCurrent city) w3)))))"

section \<open>Synthetic historical weather\<close>

definition timedelta_days :: "int \<Rightarrow> int" where
  "timedelta_days n = n * 86400000000"

text \<open>
  The dictionary \<^verbatim>\<open>historical_data\<close> built for day \<open>i\<close> of
  \<^verbatim>\<open>collect_historical_weather\<close>, its entries evaluated in the order they are
  written. It needs neither \<^verbatim>\<open>dt\<close> nor the sun times.
\<close>

definition historical_data :: "coords \<Rightarrow> datetime \<Rightarrow> nat \<Rightarrow> weather_json \<Rightarrow> exn + historical_row" where
  "historical_data co date i d =
     and_then (require ''temp'' (j_temp d)) (\<lambda>temp.
     and_then (require ''feels_like'' (j_feels_like d)) (\<lambda>feels.
     and_then (require ''humidity'' (j_humidity d)) (\<lambda>hum.
     and_then (py_add hum (PInt (int (i mod 10)))) (\<lambda>humidity.
     and_then (require ''pressure'' (j_pressure d)) (\<lambda>pres.
     and_then (py_add (py_default (j_wind_deg d)) (PInt (int (i * 2)))) (\<lambda>deg.
     and_then (require ''clouds'' (j_clouds_all d)) (\<lambda>clouds.
     and_then (py_add clouds (PInt (int (i mod 20)))) (\<lambda>cloud_cover.
     and_then (require ''main'' (j_weather_main d)) (\<lambda>wmain.
     and_then (require ''description'' (j_weather_description d)) (\<lambda>wdesc.
       Inr \<lparr>hw_city = c_city co, hw_latitude = c_lat co, hw_longitude = c_lon co,
            hw_timestamp = date,
            hw_temperature = temp + real i * (1 / 10),
            hw_feels_like = feels + real i * (1 / 10),
            hw_humidity = py_max (PInt 0) (py_min (PInt 100) humidity),
            hw_pressure = pres + real (i mod 5),
            hw_wind_speed = max 0 (with_default (j_wind_speed d) + real i * (5 / 100)),
            hw_wind_direction = py_mod deg 360,
            hw_cloud_cover = py_max (PInt 0) (py_min (PInt 100) cloud_cover),
            hw_weather_main = wmain,
            hw_weather_description = wdesc\<rparr>))))))))))"

definition store_historical_weather :: "env \<Rightarrow> world \<Rightarrow> historical_row \<Rightarrow> exn option \<times> world" where
  "store_historical_weather e w row =
     (let w1 = emit DbInsertHistorical w in
      if db_fault e (tick w) then (Some OperationalError, w1)
      else (None, w1\<lparr>historical_weather := historical_weather w1 @ [row]\<rparr>))"

text \<open>
  The body of the loop \<^verbatim>\<open>for i in range(days_back)\<close>: the date, one request to the
  current-weather endpoint, the synthetic record, the store, and the sleep of a tenth
  of a second after a success. The handler logs the day and lets the loop go on.
\<close>

definition historical_day :: "env \<Rightarrow> coords \<Rightarrow> string \<Rightarrow> nat \<Rightarrow> world \<Rightarrow> bool \<times> world" where
  "historical_day e co city i w =
     (let date = now e (tick w) - timedelta_days (int i + 1);
          w1 = emit (WeatherCall (c_lat co) (c_lon co)) w
      in case weather e (tick w) (c_lat co) (c_lon co) of
           HttpError x \<Rightarrow> (False, logline (ErrHistorical city i x) w1)
         | HttpOk d \<Rightarrow>
             (case historical_data co date i d of
                Inl x \<Rightarrow> (False, logline (ErrHistorical city i x) w1)
              | Inr row \<Rightarrow>
                  (case store_historical_weather e w1 row of
                     (Some x, w2) \<Rightarrow> (False, logline (ErrHistorical city i x) w2)
                   | (None, w2) \<Rightarrow> (True, emit (Sleep (1 / 10)) w2))))"

fun historical_loop :: "env \<Rightarrow> coords \<Rightarrow> string \<Rightarrow> nat list \<Rightarrow> nat \<times> world \<Rightarrow> nat \<times> world" where
  "historical_loop e co city [] s = s"
| "historical_loop e co city (i # rest) (success_count, w) =
     (case historical_day e co city i w of
        (ok, w1) \<Rightarrow>
          historical_loop e co city rest
            (if ok then success_count + 1 else success_count, w1))"

text \<open>
  \<^verbatim>\<open>collect_historical_weather\<close>: \<^verbatim>\<open>range(days_back)\<close> is empty for
  \<^verbatim>\<open>days_back <= 0\<close>.
\<close>

definition collect_historical_weather :: "env \<Rightarrow> world \<Rightarrow> string \<Rightarrow> int \<Rightarrow> (exn + bool) \<times> world" where
  "collect_historical_weather e w city days_back =
     (case get_city_coordinates e w city of
        (Inl x, w1) \<Rightarrow> (Inl x, w1)
      | (Inr None, w1) \<Rightarrow> (Inr False, logline (ErrNoCoordinates city) w1)
      | (Inr (Some co), w1) \<Rightarrow>
          (case historical_loop e co city [0..<nat days_back] (0, w1) of
             (success_count, w2) \<Rightarrow>
               (Inr (0 < success_count),
                logline (InfoCollectedHistorical success_count days_back city) w2)))"

section \<open>Export and the collection cycle\<close>

definition path_join :: "string \<Rightarrow> string \<Rightarrow> string" where
  "path_join dir name =
     (if dir = [] then name
      else if last dir = CHR ''/'' then dir @ name
      else dir @ ''/'' @ name)"

text \<open>
  \<^verbatim>\<open>export_to_csv\<close>: each selected table is read and written to its file, which
  replaces an older one. No handler surrounds the reads. The creation of the directory
  and the faults of the file system are not modelled.
\<close>

definition export_to_csv :: "env \<Rightarrow> world \<Rightarrow> string \<Rightarrow> string \<Rightarrow> (exn + string list) \<times> world" where
  "export_to_csv e w table output_dir =
     (let current_file = path_join output_dir ''current_weather.csv'';
          historical_file = path_join output_dir ''historical_weather.csv'';
          r1 = (if table = ''current'' \<or> table = ''both''
                then (let w1 = emit DbReadCurrent w in
                      if db_fault e (tick w) then (Inl OperationalError, w1)
                      else (Inr [current_file],
                            w1\<lparr>files := (files w1)(current_file \<mapsto> CurrentCsv (current_weather w1))\<rparr>))
                else (Inr [], w))
      in case r1 of
           (Inl x, w1) \<Rightarrow> (Inl x, w1)
         | (Inr exported1, w1) \<Rightarrow>
             (let r2 = (if table = ''historical'' \<or> table = ''both''
                        then (let w2 = emit DbReadHistorical w1 in
                              if db_fault e (tick w1) then (Inl OperationalError, w2)
                              else (Inr (exported1 @ [historical_file]),
                                    w2\<lparr>files := (files w2)(historical_file \<mapsto>
                                         HistoricalCsv (historical_weather w2))\<rparr>))
                        else (Inr exported1, w1))
              in case r2 of
                   (Inl x, w2) \<Rightarrow> (Inl x, w2)
                 | (Inr exported_files, w2) \<Rightarrow>
                     (Inr exported_files, logline (InfoExported exported_files) w2)))"

text \<open>
  The loop of \<^verbatim>\<open>collect_all_current\<close>. The sleep follows the call inside the
  \<^verbatim>\<open>try\<close>: it runs when the call returns, with either value, and is skipped when the
  call raises.
\<close>

fun collect_loop :: "env \<Rightarrow> string list \<Rightarrow> nat \<times> world \<Rightarrow> nat \<times> world" where
  "collect_loop e [] s = s"
| "collect_loop e (city # rest) (success_count, w) =
     (case collect_current_weather e w city of
        (Inr ok, w1) \<Rightarrow>
          collect_loop e rest
            (if ok then success_count + 1 else success_count,
             emit (Sleep (api_delay e)) w1)
      | (Inl x, w1) \<Rightarrow>
          collect_loop e rest (success_count, logline (ErrCycle city x) w1))"

text \<open>
  \<^verbatim>\<open>collect_all_current\<close> over the configured cities. The summary is the log line
  \<open>InfoCompleted success_count (len cities)\<close>; the export runs with its default
  arguments when a city succeeded, and its exception, if any, leaves the function.
\<close>

definition collect_all_current :: "env \<Rightarrow> world \<Rightarrow> string list \<Rightarrow> exn option \<times> world" where
  "collect_all_current e w cities =
     (case collect_loop e cities (0, logline InfoStartCycle w) of
        (success_count, w1) \<Rightarrow>
          (let w2 = logline (InfoCompleted success_count (length cities)) w1 in
           if 0 < success_count
           then (case export_to_csv e w2 ''both'' ''data'' of
                   (Inl x, w3) \<Rightarrow> (Some x, w3)
                 | (Inr exported, w3) \<Rightarrow> (None, w3))
           else (None, w2)))"

section \<open>Notions used to state the properties\<close>

text \<open>The summaries \<open>(succeeded, attempted)\<close> reported in a log.\<close>

fun summaries :: "log_entry list \<Rightarrow> (nat \<times> nat) list" where
  "summaries [] = []"
| "summaries (InfoCompleted k n # ls) = (k, n) # summaries ls"
| "summaries (l # ls) = summaries ls"

fun is_weather_call :: "event \<Rightarrow> bool" where
  "is_weather_call (WeatherCall la lo) = True"
| "is_weather_call ev = False"

fun is_geo_call :: "event \<Rightarrow> bool" where
  "is_geo_call (GeoCall q) = True"
| "is_geo_call ev = False"

definition weather_calls :: "event list \<Rightarrow> nat" where
  "weather_calls es = length (filter is_weather_call es)"

definition geo_calls :: "event list \<Rightarrow> nat" where
  "geo_calls es = length (filter is_geo_call es)"

text \<open>The world in which the cycle leaves a city.\<close>

definition after_city :: "env \<Rightarrow> world \<Rightarrow> string \<Rightarrow> world" where
  "after_city e w city = snd (collect_loop e [city] (0, w))"

text \<open>A day of the historical collection succeeds when the request answers with the
  fields the synthetic record needs and the insertion does not fail.\<close>

definition day_ok :: "env \<Rightarrow> coords \<Rightarrow> nat \<Rightarrow> world \<Rightarrow> bool" where
  "day_ok e co i w =
     (case weather e (tick w) (c_lat co) (c_lon co) of
        HttpOk d \<Rightarrow>
          (case historical_data co (now e (tick w) - timedelta_days (int i + 1)) i d of
             Inr row \<Rightarrow> \<not> db_fault e (Suc (tick w))
           | Inl x \<Rightarrow> False)
      | HttpError x \<Rightarrow> False)"

fun successful_days :: "env \<Rightarrow> coords \<Rightarrow> string \<Rightarrow> nat list \<Rightarrow> world \<Rightarrow> nat" where
  "successful_days e co city [] w = 0"
| "successful_days e co city (i # rest) w =
     (if day_ok e co i w then 1 else 0)
       + successful_days e co city rest (snd (historical_day e co city i w))"


text \<open>
  The ranges of a synthetic record: the humidity and the cloud cover in \<open>[0, 100]\<close>;
  a wind direction that is an integer in \<open>[0, 360)\<close>, and one that is a float in
  \<open>[0, 360]\<close> or \<^verbatim>\<open>NaN\<close>.
\<close>

definition in_range :: "historical_row \<Rightarrow> bool" where
  "in_range r =
     (py_le (PInt 0) (hw_humidity r) \<and> py_le (hw_humidity r) (PInt 100) \<and>
      py_le (PInt 0) (hw_cloud_cover r) \<and> py_le (hw_cloud_cover r) (PInt 100) \<and>
      (case hw_wind_direction r of
         PInt n \<Rightarrow> 0 \<le> n \<and> n < 360
       | PFloat (Finite x) \<Rightarrow> 0 \<le> x \<and> x \<le> 360
       | PFloat NaN \<Rightarrow> True
       | PFloat g \<Rightarrow> False))"

text \<open>The level and the message template of the logging statement behind an entry.\<close>

fun log_statement :: "log_entry \<Rightarrow> string" where
  "log_statement (ErrCoordinates city x) = ''ERROR Error getting coordinates for %s: %s''"
| "log_statement (ErrNoCoordinates city) = ''ERROR Could not get coordinates for %s''"
| "log_statement (InfoCollectedCurrent city) = ''INFO Collected current weather for %s''"
| "log_statement (ErrCurrent city x) = ''ERROR Error collecting current weather for %s: %s''"
| "log_statement (ErrHistorical city i x) =
     ''ERROR Error collecting historical weather for %s, day %s: %s''"
| "log_statement (InfoCollectedHistorical k n city) =
     ''INFO Collected %s/%s historical records for %s''"
| "log_statement InfoStartCycle = ''INFO Starting scheduled current weather collection''"
| "log_statement (ErrCycle city x) = ''ERROR Error collecting weather for %s: %s''"
| "log_statement (InfoCompleted k n) = ''INFO Completed collection: %s/%s cities''"
| "log_statement (InfoExported fs) = ''INFO Exported data to: %s''"

section \<open>Sample worlds and environments\<close>

text \<open>
  The store before the first statement, a store whose cache holds \<open>London\<close>, and the
  store in which \<open>Paris\<close> has just been resolved on an empty cache.
\<close>

definition empty_world :: world where
  "empty_world =
     \<lparr>city_coordinates = [], current_weather = [], historical_weather = [],
      events = [], logged = [], files = Map.empty\<rparr>"

definition london_row :: city_coordinate where
  "london_row =
     \<lparr>cc_city = ''London'', cc_country = ''GB'', cc_latitude = 515 / 10,
      cc_longitude = - (1 / 10)\<rparr>"

definition london_cached :: world where
  "london_cached = empty_world\<lparr>city_coordinates := [london_row]\<rparr>"

definition paris :: coords where
  "paris = \<lparr>c_city = ''Paris'', c_country = ''XX'', c_lat = 10, c_lon = 20\<rparr>"

definition paris_world :: world where
  "paris_world =
     \<lparr>city_coordinates =
        [\<lparr>cc_city = ''Paris'', cc_country = ''XX'', cc_latitude = 10, cc_longitude = 20\<rparr>],
      current_weather = [], historical_weather = [],
      events = [DbSelectCity ''Paris'', GeoCall ''Paris'', DbInsertCity],
      logged = [], files = Map.empty\<rparr>"

text \<open>
  An ordinary response; one whose numbers are far out of range, with the cloud cover
  \<^verbatim>\<open>1e999\<close>, which Python reads as infinity; and two whose wind direction is a
  float: \<open>- 2 ^ - 70\<close>, the double written \<^verbatim>\<open>-8.470329472543003e-22\<close>, and
  infinity.
\<close>

definition sample_json :: weather_json where
  "sample_json =
     \<lparr>j_dt = Some 1700000000, j_temp = Some (125 / 10), j_feels_like = Some 11,
      j_humidity = Some (PInt 95), j_pressure = Some 1013, j_wind_speed = Some (35 / 10),
      j_wind_deg = Some (PInt 355), j_visibility = Some (PInt 10000),
      j_clouds_all = Some (PInt 90),
      j_weather_main = Some ''Clouds'', j_weather_description = Some ''overcast clouds'',
      j_sunrise = Some 1699990000, j_sunset = Some 1700020000\<rparr>"

definition extreme_json :: weather_json where
  "extreme_json =
     \<lparr>j_dt = None, j_temp = Some (- 90), j_feels_like = Some (- 120),
      j_humidity = Some (PInt (- 500)), j_pressure = Some 0, j_wind_speed = Some (- 40),
      j_wind_deg = Some (PInt (- 725)), j_visibility = None,
      j_clouds_all = Some (PFloat PosInf),
      j_weather_main = Some ''Storm'', j_weather_description = Some ''violent storm'',
      j_sunrise = None, j_sunset = None\<rparr>"

definition tiny :: real where
  "tiny = 1 / 2 ^ 70"

definition tiny_deg_json :: weather_json where
  "tiny_deg_json = sample_json\<lparr>j_wind_deg := Some (PFloat (Finite (- tiny)))\<rparr>"

definition inf_deg_json :: weather_json where
  "inf_deg_json = sample_json\<lparr>j_wind_deg := Some (PFloat PosInf)\<rparr>"

text \<open>
  Geocoding endpoints: one that returns the query as the canonical name, one that
  answers every query with \<open>London\<close>, one that does not know \<open>Beta\<close>, one that knows
  no city.
\<close>

definition echo_geocode :: "nat \<Rightarrow> string \<Rightarrow> geo_result" where
  "echo_geocode t q = GeoOk [\<lparr>g_name = q, g_country = ''XX'', g_lat = 10, g_lon = 20\<rparr>]"

definition london_geocode :: "nat \<Rightarrow> string \<Rightarrow> geo_result" where
  "london_geocode t q =
     GeoOk [\<lparr>g_name = ''London'', g_country = ''GB'', g_lat = 515 / 10, g_lon = - (1 / 10)\<rparr>]"

definition no_beta_geocode :: "nat \<Rightarrow> string \<Rightarrow> geo_result" where
  "no_beta_geocode t q = (if q = ''Beta'' then GeoOk [] else echo_geocode t q)"

definition no_match_geocode :: "nat \<Rightarrow> string \<Rightarrow> geo_result" where
  "no_match_geocode t q = GeoOk []"

text \<open>
  Environments built from a geocoding endpoint, the answers of the weather endpoint
  by time, and the times of the database faults. On an empty store the resolution of a
  city takes the times \<open>0\<close>, \<open>1\<close> and \<open>2\<close>, so the first weather request is made at
  time \<open>3\<close> and the first insertion of an observation at time \<open>4\<close>; a successful day
  of the historical collection takes three events, so day \<open>3\<close> of a run without
  failures asks at time \<open>12\<close>.
\<close>

definition mk_env :: "(nat \<Rightarrow> string \<Rightarrow> geo_result) \<Rightarrow> (nat \<Rightarrow> http_result) \<Rightarrow> (nat \<Rightarrow> bool) \<Rightarrow> env" where
  "mk_env geo wth fault =
     \<lparr>geocode = geo, weather = (\<lambda>t la lo. wth t), db_fault = fault,
      now = (\<lambda>t. 1700000000000000 + int t),
      fromtimestamp = (\<lambda>s. Some (\<lfloor>s * 1000000\<rfloor>)), api_delay = 1\<rparr>"

definition ok_env :: env where
  "ok_env = mk_env echo_geocode (\<lambda>t. HttpOk sample_json) (\<lambda>t. False)"

definition london_env :: env where
  "london_env = mk_env london_geocode (\<lambda>t. HttpOk sample_json) (\<lambda>t. False)"

definition no_beta_env :: env where
  "no_beta_env = mk_env no_beta_geocode (\<lambda>t. HttpOk sample_json) (\<lambda>t. False)"

definition no_match_env :: env where
  "no_match_env = mk_env no_match_geocode (\<lambda>t. HttpOk sample_json) (\<lambda>t. False)"

definition extreme_env :: env where
  "extreme_env = mk_env echo_geocode (\<lambda>t. HttpOk extreme_json) (\<lambda>t. False)"

definition tiny_deg_env :: env where
  "tiny_deg_env = mk_env echo_geocode (\<lambda>t. HttpOk tiny_deg_json) (\<lambda>t. False)"

definition inf_deg_env :: env where
  "inf_deg_env = mk_env echo_geocode (\<lambda>t. HttpOk inf_deg_json) (\<lambda>t. False)"


definition fetch_fail_env :: env where
  "fetch_fail_env = mk_env echo_geocode (\<lambda>t. HttpError RequestError) (\<lambda>t. False)"

definition select_fault_env :: env where
  "select_fault_env = mk_env echo_geocode (\<lambda>t. HttpOk sample_json) (\<lambda>t. t = 0)"

definition store_fault_env :: env where
  "store_fault_env = mk_env echo_geocode (\<lambda>t. HttpOk sample_json) (\<lambda>t. t = 4)"

section \<open>Basic facts\<close>

lemma emit_fields [simp]:
  "city_coordinates (emit x w) = city_coordinates w"
  "current_weather (emit x w) = current_weather w"
  "historical_weather (emit x w) = historical_weather w"
  "events (emit x w) = events w @ [x]"
  "logged (emit x w) = logged w"
  "files (emit x w) = files w"
  "tick (emit x w) = Suc (tick w)"
  by (simp_all add: emit_def tick_def)

lemma logline_fields [simp]:
  "city_coordinates (logline l w) = city_coordinates w"
  "current_weather (logline l w) = current_weather w"
  "historical_weather (logline l w) = historical_weather w"
  "events (logline l w) = events w"
  "logged (logline l w) = logged w @ [l]"
  "files (logline l w) = files w"
  "tick (logline l w) = tick w"
  by (simp_all add: logline_def tick_def)

lemma tick_update [simp]:
  "tick (w\<lparr>city_coordinates := a\<rparr>) = tick w"
  "tick (w\<lparr>current_weather := b\<rparr>) = tick w"
  "tick (w\<lparr>historical_weather := c\<rparr>) = tick w"
  "tick (w\<lparr>files := d\<rparr>) = tick w"
  by (simp_all add: tick_def)

lemma summaries_append: "summaries (xs @ ys) = summaries xs @ summaries ys"
  by (induction xs rule: summaries.induct) simp_all

lemma weather_calls_append [simp]:
  "weather_calls (xs @ ys) = weather_calls xs + weather_calls ys"
  by (simp add: weather_calls_def)

lemma weather_calls_simps [simp]:
  "weather_calls [] = 0"
  "weather_calls (ev # es) = (if is_weather_call ev then 1 else 0) + weather_calls es"
  by (simp_all add: weather_calls_def)

lemmas sample_defs = empty_world_def sample_json_def extreme_json_def echo_geocode_def
  london_geocode_def mk_env_def london_row_def no_beta_geocode_def no_match_geocode_def
  london_env_def no_beta_env_def no_match_env_def

lemmas run_defs = get_city_coordinates_def collect_current_weather_def weather_data_def
  store_current_weather_def require_def to_datetime_def and_then_def with_default_def
  historical_data_def store_historical_weather_def historical_day_def
  collect_historical_weather_def export_to_csv_def collect_all_current_def path_join_def
  timedelta_days_def emit_def logline_def tick_def Let_def py_default_def

subsection \<open>What coordinate resolution changes\<close>

lemma get_city_coordinates_frame:
  assumes "get_city_coordinates e w city = (r, w')"
  shows "current_weather w' = current_weather w"
    and "historical_weather w' = historical_weather w"
    and "files w' = files w"
    and "summaries (logged w') = summaries (logged w)"
    and "weather_calls (events w') = weather_calls (events w)"
  using assms
  by (auto simp: get_city_coordinates_def Let_def summaries_append
      split: if_splits option.splits geo_result.splits list.splits)

lemma get_city_coordinates_none:
  assumes "get_city_coordinates e w city = (Inr None, w')"
  shows "city_coordinates w' = city_coordinates w"
  using assms
  by (auto simp: get_city_coordinates_def Let_def
      split: if_splits option.splits geo_result.splits list.splits)

lemma get_city_coordinates_raise:
  assumes "get_city_coordinates e w city = (Inl x, w')"
  shows "w' = emit (DbSelectCity city) w"
  using assms
  by (auto simp: get_city_coordinates_def Let_def
      split: if_splits option.splits geo_result.splits list.splits)

lemma get_city_coordinates_events:
  assumes "get_city_coordinates e w city = (r, w')"
  shows "\<exists>es. events w' = events w @ DbSelectCity city # es"
  using assms
  by (auto simp: get_city_coordinates_def Let_def
      split: if_splits option.splits geo_result.splits list.splits)

subsection \<open>What the collection of one city changes\<close>

lemma store_current_weather_cases:
  "store_current_weather e w row =
     (if db_fault e (tick w) then (Some OperationalError, emit DbInsertCurrent w)
      else (None, (emit DbInsertCurrent w)\<lparr>current_weather := current_weather w @ [row]\<rparr>))"
  by (simp add: store_current_weather_def Let_def)

lemma collect_current_weather_rows:
  assumes "collect_current_weather e w city = (r, w')"
  shows "\<exists>new. current_weather w' = current_weather w @ new \<and>
           length new = (if r = Inr True then 1 else 0)"
    and "historical_weather w' = historical_weather w"
    and "files w' = files w"
    and "summaries (logged w') = summaries (logged w)"
proof -
  obtain r1 w1 where g: "get_city_coordinates e w city = (r1, w1)"
    by (cases "get_city_coordinates e w city")
  note fr = get_city_coordinates_frame [OF g]
  from assms g fr show "\<exists>new. current_weather w' = current_weather w @ new \<and>
           length new = (if r = Inr True then 1 else 0)"
    by (auto simp: collect_current_weather_def Let_def store_current_weather_cases
        split: sum.splits option.splits http_result.splits if_splits)
  from assms g fr show "historical_weather w' = historical_weather w"
    by (auto simp: collect_current_weather_def Let_def store_current_weather_cases
        split: sum.splits option.splits http_result.splits if_splits)
  from assms g fr show "files w' = files w"
    by (auto simp: collect_current_weather_def Let_def store_current_weather_cases
        split: sum.splits option.splits http_result.splits if_splits)
  from assms g fr show "summaries (logged w') = summaries (logged w)"
    by (auto simp: collect_current_weather_def Let_def store_current_weather_cases
        summaries_append
        split: sum.splits option.splits http_result.splits if_splits)
qed

lemma collect_current_weather_events:
  assumes "collect_current_weather e w city = (r, w')"
  shows "\<exists>es. events w' = events w @ DbSelectCity city # es"
proof -
  obtain r1 w1 where g: "get_city_coordinates e w city = (r1, w1)"
    by (cases "get_city_coordinates e w city")
  from get_city_coordinates_events [OF g] obtain es
    where "events w1 = events w @ DbSelectCity city # es" by blast
  with assms g show ?thesis
    by (auto simp: collect_current_weather_def Let_def store_current_weather_cases
        split: sum.splits option.splits http_result.splits if_splits)
qed

subsection \<open>The loop over the cities\<close>

lemma collect_loop_append:
  "collect_loop e (xs @ ys) s = collect_loop e ys (collect_loop e xs s)"
proof (induction xs arbitrary: s)
  case Nil
  show ?case by simp
next
  case (Cons c cs)
  obtain n w where s: "s = (n, w)" by (cases s)
  show ?case
    by (simp add: s Cons.IH split: prod.splits sum.splits)
qed

lemma after_city_cases:
  "after_city e w city =
     (case collect_current_weather e w city of
        (Inr ok, w1) \<Rightarrow> emit (Sleep (api_delay e)) w1
      | (Inl x, w1) \<Rightarrow> logline (ErrCycle city x) w1)"
  by (simp add: after_city_def split: prod.splits sum.splits)

lemma collect_loop_step:
  "collect_loop e (city # rest) (n, w) =
     collect_loop e rest
       (if fst (collect_current_weather e w city) = Inr True then n + 1 else n,
        after_city e w city)"
proof -
  obtain r w1 where c: "collect_current_weather e w city = (r, w1)"
    by (cases "collect_current_weather e w city")
  show ?thesis
    by (cases r) (auto simp: c after_city_cases)
qed

lemma export_to_csv_frame:
  assumes "export_to_csv e w table output_dir = (r, w')"
  shows "current_weather w' = current_weather w"
    and "historical_weather w' = historical_weather w"
    and "city_coordinates w' = city_coordinates w"
    and "summaries (logged w') = summaries (logged w)"
  using assms
  by (auto simp: export_to_csv_def Let_def summaries_append split: if_splits)

subsection \<open>Python numbers\<close>

text \<open>The binade of a number is found by the search once it is known.\<close>

lemma binade_up_eqI:
  assumes "a < 2 powi (e + 1)" and "start \<le> e" and "e = start \<or> 2 powi e \<le> a"
    and "nat (e - start) \<le> n"
  shows "binade_up n start a = e"
  using assms
proof (induction n arbitrary: start)
  case 0
  then show ?case by simp
next
  case (Suc n)
  show ?case
  proof (cases "start = e")
    case True
    with Suc.prems(1) show ?thesis by simp
  next
    case False
    with Suc.prems have lt: "start < e" and le: "2 powi e \<le> a" by auto
    have "(2::real) powi (start + 1) \<le> 2 powi e"
      using lt by (intro power_int_increasing) auto
    with le have "\<not> a < 2 powi (start + 1)" by simp
    moreover have "binade_up n (start + 1) a = e"
      using Suc.prems lt le by (intro Suc.IH) auto
    ultimately show ?thesis by simp
  qed
qed

lemma binade_eqI:
  assumes "\<bar>x\<bar> < 2 powi (e + 1)" and "- 1022 \<le> e" and "e \<le> 1023"
    and "e = - 1022 \<or> 2 powi e \<le> \<bar>x\<bar>"
  shows "binade x = e"
  unfolding binade_def using assms by (intro binade_up_eqI) auto

text \<open>Roundings used below, and two that show the ties and the inexact case.\<close>

lemma fl_zero: "fl 0 = Finite 0"
proof -
  have "binade 0 = - 1022" by (rule binade_eqI) simp_all
  then show ?thesis by (simp add: fl_def round_half_even_def)
qed

lemma fl_neg_tiny: "fl (- tiny) = Finite (- tiny)"
proof -
  have "binade (- tiny) = - 70" unfolding tiny_def by (rule binade_eqI) simp_all
  then show ?thesis by (simp add: fl_def round_half_even_def Let_def tiny_def)
qed

lemma fl_below_360: "fl (360 - tiny) = Finite 360"
proof -
  have "binade (360 - tiny) = 8" unfolding tiny_def by (rule binade_eqI) simp_all
  then show ?thesis by (simp add: fl_def round_half_even_def Let_def tiny_def)
qed

lemma fl_tenth: "fl (1 / 10) = Finite (3602879701896397 / 2 ^ 55)"
proof -
  have "binade (1 / 10) = - 4" by (rule binade_eqI) simp_all
  then show ?thesis by (simp add: fl_def round_half_even_def Let_def)
qed

lemma fl_tie_to_even: "fl (2 ^ 53 + 1) = Finite (2 ^ 53)"
proof -
  have "binade (2 ^ 53 + 1) = 53" by (rule binade_eqI) simp_all
  then show ?thesis by (simp add: fl_def round_half_even_def Let_def)
qed

text \<open>An integer below \<open>2 ^ 53\<close> in magnitude is converted exactly.\<close>

lemma round_half_even_of_int [simp]: "round_half_even (of_int k) = k"
  by (simp add: round_half_even_def)

lemma fl_of_int:
  assumes "\<bar>n\<bar> < 2 ^ 53"
  shows "fl (of_int n) = Finite (of_int n)"
proof (cases "n = 0")
  case True
  then show ?thesis by (simp add: fl_zero)
next
  case False
  define a :: real where "a = \<bar>of_int n\<bar>"
  from False have a1: "1 \<le> a" by (simp add: a_def)
  from assms have a53: "a < 2 ^ 53"
    unfolding a_def by (metis of_int_abs of_int_less_numeral_power_cancel_iff)
  define e where "e = \<lfloor>log 2 a\<rfloor>"
  from a1 have pw: "2 powr (of_int e) \<le> a" "a < 2 powr (of_int (e + 1))"
    using floor_log_eq_powr_iff [of a 2 e] by (simp_all add: e_def)
  have lo: "2 powi e \<le> a"
    using pw(1) powr_real_of_int' [of 2 e] by simp
  have hi: "a < 2 powi (e + 1)"
    using pw(2) powr_real_of_int' [of 2 "e + 1"] by simp
  have e0: "0 \<le> e"
    unfolding e_def using a1 by simp
  have e52: "e \<le> 52"
  proof (rule ccontr)
    assume "\<not> e \<le> 52"
    then have "53 \<le> e" by simp
    then have "(2::real) powi 53 \<le> 2 powi e" by (intro power_int_increasing) auto
    with lo a53 show False by simp
  qed
  have b: "binade (of_int n) = e"
    using lo hi e0 e52 by (intro binade_eqI) (auto simp: a_def)
  define k where "k = nat (52 - e)"
  from e52 have q: "e - 52 = - int k" by (simp add: k_def)
  have p: "(2::real) powi (- int k) = 1 / 2 ^ k"
    by (simp add: power_int_minus_divide)
  have d: "real_of_int n / (1 / 2 ^ k) = of_int (n * 2 ^ k)" by simp
  have y: "of_int (round_half_even (real_of_int n / 2 powi (e - 52))) * 2 powi (e - 52)
      = real_of_int n"
    unfolding q p d round_half_even_of_int by simp
  have "\<bar>real_of_int n\<bar> < 2 powi 1024"
    using a53 unfolding a_def by (simp add: less_trans [of _ "2 ^ 53"])
  then show ?thesis
    unfolding fl_def b Let_def y by simp
qed

lemma int_to_float_small: "\<bar>n\<bar> < 2 ^ 53 \<Longrightarrow> int_to_float n = Inr (Finite (of_int n))"
  by (simp add: int_to_float_def fl_of_int)

text \<open>On integers the operations are the exact ones.\<close>

lemma py_min_int [simp]: "py_min (PInt a) (PInt b) = PInt (min a b)"
  by (simp add: py_min_def py_lt_def min_def)

lemma py_max_int [simp]: "py_max (PInt a) (PInt b) = PInt (max a b)"
  by (simp add: py_max_def py_lt_def max_def)

lemma py_le_int [simp]: "py_le (PInt a) (PInt b) = (a \<le> b)"
  by (simp add: py_le_def)

text \<open>The clamp lands in \<open>[0, 100]\<close> for every number, \<^verbatim>\<open>NaN\<close> and the infinities
  included.\<close>

lemma py_clamp_range:
  "py_le (PInt 0) (py_max (PInt 0) (py_min (PInt 100) v))"
  "py_le (py_max (PInt 0) (py_min (PInt 100) v)) (PInt 100)"
proof -
  show "py_le (PInt 0) (py_max (PInt 0) (py_min (PInt 100) v))"
  proof (cases v)
    case (PInt n)
    then show ?thesis by simp
  next
    case (PFloat f)
    then show ?thesis
      by (cases f) (simp_all add: py_max_def py_min_def py_lt_def py_le_def)
  qed
  show "py_le (py_max (PInt 0) (py_min (PInt 100) v)) (PInt 100)"
  proof (cases v)
    case (PInt n)
    then show ?thesis by simp
  next
    case (PFloat f)
    then show ?thesis
      by (cases f) (simp_all add: py_max_def py_min_def py_lt_def py_le_def)
  qed
qed

lemma binade_up_props:
  "start \<le> binade_up n start a \<and>
   (binade_up n start a = start \<or> 2 powi (binade_up n start a) \<le> a)"
proof (induction n arbitrary: start)
  case 0
  show ?case by simp
next
  case (Suc n)
  show ?case
  proof (cases "a < 2 powi (start + 1)")
    case True
    then show ?thesis by simp
  next
    case False
    from Suc.IH [of "start + 1"]
    have s: "start + 1 \<le> binade_up n (start + 1) a"
      and d: "binade_up n (start + 1) a = start + 1 \<or> 2 powi (binade_up n (start + 1) a) \<le> a"
      by simp_all
    from d False have "2 powi (binade_up n (start + 1) a) \<le> a" by auto
    with s False show ?thesis by simp
  qed
qed

lemma binade_below_512:
  assumes "\<bar>x\<bar> < 512"
  shows "- 1022 \<le> binade x" and "binade x \<le> 8"
proof -
  from binade_up_props [of "- 1022" 2046 "\<bar>x\<bar>"]
  have s: "- 1022 \<le> binade x" and d: "binade x = - 1022 \<or> 2 powi (binade x) \<le> \<bar>x\<bar>"
    by (simp_all add: binade_def)
  show "- 1022 \<le> binade x" by (rule s)
  show "binade x \<le> 8"
  proof (rule ccontr)
    assume "\<not> binade x \<le> 8"
    then have n: "9 \<le> binade x" by simp
    then have "(2::real) powi 9 \<le> 2 powi (binade x)" by (intro power_int_increasing) auto
    moreover from n d have "2 powi (binade x) \<le> \<bar>x\<bar>" by auto
    ultimately show False using assms by simp
  qed
qed

lemma round_half_even_bounds:
  "\<lfloor>z\<rfloor> \<le> round_half_even z" "round_half_even z \<le> \<lfloor>z\<rfloor> + 1"
  by (simp_all add: round_half_even_def Let_def)

text \<open>A sum in \<open>(0, 360)\<close> is rounded into \<open>[0, 360]\<close>: the upper end is reached.\<close>

lemma fl_in_0_360:
  assumes "0 < x" and "x < 360"
  shows "\<exists>y. fl x = Finite y \<and> 0 \<le> y \<and> y \<le> 360"
proof -
  from assms have "\<bar>x\<bar> < 512" by simp
  note b = binade_below_512 [OF this]
  define k where "k = nat (52 - binade x)"
  from b have q: "binade x - 52 = - int k" by (simp add: k_def)
  have u: "(2::real) powi (- int k) = 1 / 2 ^ k"
    by (simp add: power_int_minus_divide)
  define z where "z = x * 2 ^ k"
  define m where "m = round_half_even z"
  have z0: "0 < z" using assms by (simp add: z_def)
  have zN: "z < of_int (360 * 2 ^ k)" using assms by (simp add: z_def)
  from z0 have f0: "0 \<le> \<lfloor>z\<rfloor>" by simp
  have m0: "0 \<le> m"
    unfolding m_def using f0 round_half_even_bounds(1) [of z] by linarith
  from zN have fN: "\<lfloor>z\<rfloor> < 360 * 2 ^ k" by (simp only: floor_less_iff)
  have mN: "m \<le> 360 * 2 ^ k"
    unfolding m_def using fN round_half_even_bounds(2) [of z] by linarith
  define y where "y = real_of_int m / 2 ^ k"
  have y0: "0 \<le> y" using m0 by (simp add: y_def)
  from mN have "real_of_int m \<le> real_of_int (360 * 2 ^ k)" by (rule of_int_le_iff [THEN iffD2])
  then have yN: "y \<le> 360" by (simp add: y_def field_simps)
  have "x / (1 / 2 ^ k) = z" by (simp add: z_def)
  then have r: "of_int (round_half_even (x / 2 powi (binade x - 52))) * 2 powi (binade x - 52) = y"
    unfolding q u by (simp add: m_def y_def)
  have "\<bar>y\<bar> < 2 powi 1024" using y0 yN by simp
  then have "fl x = Finite y"
    unfolding fl_def Let_def r by simp
  with y0 yN show ?thesis by blast
qed

lemma trunc_close: "\<bar>z - of_int (trunc z)\<bar> < 1"
  unfolding trunc_def by (auto; linarith)

lemma float_rem_360_range:
  "case float_rem f 360 of Finite x \<Rightarrow> 0 \<le> x \<and> x \<le> 360 | NaN \<Rightarrow> True | g \<Rightarrow> False"
proof (cases f)
  case (Finite x)
  define r where "r = x - 360 * of_int (trunc (x / 360))"
  have "r = 360 * (x / 360 - of_int (trunc (x / 360)))" by (simp add: r_def)
  then have "\<bar>r\<bar> = \<bar>360\<bar> * \<bar>x / 360 - of_int (trunc (x / 360))\<bar>"
    by (simp only: abs_mult)
  with trunc_close [of "x / 360"] have a: "\<bar>r\<bar> < 360" by simp
  show ?thesis
  proof (cases "r < 0")
    case True
    with a have "0 < r + 360" "r + 360 < 360" by simp_all
    from fl_in_0_360 [OF this] obtain y where "fl (r + 360) = Finite y" "0 \<le> y" "y \<le> 360"
      by blast
    with True Finite show ?thesis
      by (simp add: float_rem_def Let_def r_def [symmetric])
  next
    case False
    with a Finite show ?thesis
      by (simp add: float_rem_def Let_def r_def [symmetric])
  qed
qed (simp_all add: float_rem_def)

lemma py_mod_360_range:
  "case py_mod deg 360 of
     PInt n \<Rightarrow> 0 \<le> n \<and> n < 360
   | PFloat (Finite x) \<Rightarrow> 0 \<le> x \<and> x \<le> 360
   | PFloat NaN \<Rightarrow> True
   | PFloat g \<Rightarrow> False"
proof (cases deg)
  case (PInt n)
  then show ?thesis by simp
next
  case (PFloat f)
  with float_rem_360_range [of f] show ?thesis
    by (cases "float_rem f 360") simp_all
qed

text \<open>The remainder of \<open>- 2 ^ - 70\<close> is \<open>360\<close>: the sum \<open>360 - 2 ^ - 70\<close> lies between
  the doubles \<open>360 - 2 ^ - 44\<close> and \<open>360\<close>, nearer to the second.\<close>

lemma float_rem_tiny: "float_rem (Finite (- tiny)) 360 = Finite 360"
proof -
  have p: "0 < tiny" by (simp add: tiny_def)
  have "- 1 < - tiny / 360" "- tiny / 360 \<le> 0" by (simp_all add: tiny_def)
  then have c: "\<lceil>- tiny / 360\<rceil> = 0" by (simp add: ceiling_eq_iff)
  have t: "trunc (- tiny / 360) = 0" unfolding trunc_def using p c by simp
  have r: "- tiny - 360 * of_int (trunc (- tiny / 360)) = - tiny" unfolding t by simp
  have s: "- tiny + 360 = 360 - tiny" by simp
  show ?thesis
    unfolding float_rem_def pyfloat.case Let_def r s fl_below_360 using p by simp
qed

lemma float_rem_special [simp]:
  "float_rem PosInf m = NaN" "float_rem NegInf m = NaN" "float_rem NaN m = NaN"
  by (simp_all add: float_rem_def)

subsection \<open>One day of the historical collection\<close>


lemma historical_data_Inr:
  "historical_data co date i d = Inr row \<longleftrightarrow>
     (\<exists>temp feels hum humidity pres deg clouds cloud_cover wmain wdesc.
        j_temp d = Some temp \<and> j_feels_like d = Some feels \<and> j_humidity d = Some hum \<and>
        py_add hum (PInt (int (i mod 10))) = Inr humidity \<and>
        j_pressure d = Some pres \<and>
        py_add (py_default (j_wind_deg d)) (PInt (int (i * 2))) = Inr deg \<and>
        j_clouds_all d = Some clouds \<and>
        py_add clouds (PInt (int (i mod 20))) = Inr cloud_cover \<and>
        j_weather_main d = Some wmain \<and> j_weather_description d = Some wdesc \<and>
        row = \<lparr>hw_city = c_city co, hw_latitude = c_lat co, hw_longitude = c_lon co,
            hw_timestamp = date,
            hw_temperature = temp + real i * (1 / 10),
            hw_feels_like = feels + real i * (1 / 10),
            hw_humidity = py_max (PInt 0) (py_min (PInt 100) humidity),
            hw_pressure = pres + real (i mod 5),
            hw_wind_speed = max 0 (with_default (j_wind_speed d) + real i * (5 / 100)),
            hw_wind_direction = py_mod deg 360,
            hw_cloud_cover = py_max (PInt 0) (py_min (PInt 100) cloud_cover),
            hw_weather_main = wmain,
            hw_weather_description = wdesc\<rparr>)"
  by (auto simp: historical_data_def and_then_def require_def split: option.splits sum.splits)

lemma historical_data_in_range:
  assumes "historical_data co date i d = Inr row"
  shows "in_range row"
  using assms py_mod_360_range unfolding historical_data_Inr in_range_def
  by (auto simp: py_clamp_range)


lemma store_historical_weather_cases:
  "store_historical_weather e w row =
     (if db_fault e (tick w) then (Some OperationalError, emit DbInsertHistorical w)
      else (None, (emit DbInsertHistorical w)\<lparr>historical_weather := historical_weather w @ [row]\<rparr>))"
  by (simp add: store_historical_weather_def Let_def)


lemma historical_day_result:
  assumes "historical_day e co city i w = (ok, w')"
  shows "ok = day_ok e co i w"
    and "\<exists>new. historical_weather w' = historical_weather w @ new \<and>
           length new = (if day_ok e co i w then 1 else 0) \<and> list_all in_range new"
    and "weather_calls (events w') = Suc (weather_calls (events w))"
    and "current_weather w' = current_weather w"
    and "city_coordinates w' = city_coordinates w"
    and "files w' = files w"
proof -
  from assms show "ok = day_ok e co i w"
    by (auto simp: historical_day_def day_ok_def Let_def store_historical_weather_cases
        split: http_result.splits sum.splits if_splits)
  from assms show "\<exists>new. historical_weather w' = historical_weather w @ new \<and>
           length new = (if day_ok e co i w then 1 else 0) \<and> list_all in_range new"
    by (auto simp: historical_day_def day_ok_def Let_def store_historical_weather_cases
        historical_data_in_range
        split: http_result.splits sum.splits if_splits)
  from assms show "weather_calls (events w') = Suc (weather_calls (events w))"
    by (auto simp: historical_day_def Let_def store_historical_weather_cases
        split: http_result.splits sum.splits if_splits)
  from assms show "current_weather w' = current_weather w"
    by (auto simp: historical_day_def Let_def store_historical_weather_cases
        split: http_result.splits sum.splits if_splits)
  from assms show "city_coordinates w' = city_coordinates w"
    by (auto simp: historical_day_def Let_def store_historical_weather_cases
        split: http_result.splits sum.splits if_splits)
  from assms show "files w' = files w"
    by (auto simp: historical_day_def Let_def store_historical_weather_cases
        split: http_result.splits sum.splits if_splits)
qed

subsection \<open>The loop over the days\<close>


lemma historical_loop_result:
  "\<exists>w' new. historical_loop e co city days (n, w) =
       (n + successful_days e co city days w, w') \<and>
     historical_weather w' = historical_weather w @ new \<and>
     length new = successful_days e co city days w \<and> list_all in_range new \<and>
     weather_calls (events w') = weather_calls (events w) + length days \<and>
     current_weather w' = current_weather w \<and> city_coordinates w' = city_coordinates w \<and>
     files w' = files w"
proof (induction days arbitrary: n w)
  case Nil
  show ?case by simp
next
  case (Cons i rest)
  obtain ok w1 where d: "historical_day e co city i w = (ok, w1)"
    by (cases "historical_day e co city i w")
  note r = historical_day_result [OF d]
  from r(2) obtain new1 where
    h1: "historical_weather w1 = historical_weather w @ new1"
      "length new1 = (if day_ok e co i w then 1 else 0)" "list_all in_range new1"
    by blast
  let ?n1 = "if ok then n + 1 else n"
  from Cons.IH [of ?n1 w1] obtain w' new where
    l: "historical_loop e co city rest (?n1, w1) =
          (?n1 + successful_days e co city rest w1, w')"
    and h: "historical_weather w' = historical_weather w1 @ new"
      "length new = successful_days e co city rest w1" "list_all in_range new"
    and ev: "weather_calls (events w') = weather_calls (events w1) + length rest"
    and fr: "current_weather w' = current_weather w1"
      "city_coordinates w' = city_coordinates w1" "files w' = files w1"
    by blast
  have "historical_loop e co city (i # rest) (n, w) =
      (n + successful_days e co city (i # rest) w, w')"
    using l d r(1) by simp
  moreover have "historical_weather w' = historical_weather w @ (new1 @ new)"
    using h h1 by simp
  moreover have "length (new1 @ new) = successful_days e co city (i # rest) w"
    using h h1 d by simp
  moreover have "list_all in_range (new1 @ new)"
    using h h1 by simp
  moreover have "weather_calls (events w') = weather_calls (events w) + length (i # rest)"
    using ev r(3) by simp
  ultimately show ?case
    using fr r(4-6) by metis
qed


subsection \<open>Repeated resolution\<close>

text \<open>
  When the name of the resolved coordinates is the argument itself, a second call is
  answered from the cache: one lookup, no request, the same coordinates.
\<close>

lemma find_snoc:
  "find P (xs @ [y]) = (case find P xs of Some x \<Rightarrow> Some x | None \<Rightarrow> if P y then Some y else None)"
  by (induction xs) simp_all

lemma get_city_coordinates_repeat_when_names_agree:
  assumes "get_city_coordinates e w city = (Inr (Some co), w1)"
    and "c_city co = city"
    and "\<not> db_fault e (tick w1)"
  shows "get_city_coordinates e w1 city = (Inr (Some co), emit (DbSelectCity city) w1)"
  using assms
  by (auto simp: get_city_coordinates_def Let_def find_snoc
      split: if_splits option.splits geo_result.splits list.splits)

subsection \<open>Faults of the lookup and the order of the events\<close>

lemma get_city_coordinates_fault:
  "fst (get_city_coordinates e w city) =
     (if db_fault e (tick w) then Inl OperationalError
      else Inr (case fst (get_city_coordinates e w city) of Inr c \<Rightarrow> c | Inl x \<Rightarrow> None))"
  by (auto simp: get_city_coordinates_def Let_def
      split: if_splits option.splits geo_result.splits list.splits)

lemma after_city_events:
  "\<exists>es. events (after_city e w city) = events w @ DbSelectCity city # es"
proof -
  obtain r w1 where c: "collect_current_weather e w city = (r, w1)"
    by (cases "collect_current_weather e w city")
  from collect_current_weather_events [OF c] c show ?thesis
    by (cases r) (auto simp: after_city_cases)
qed

lemma collect_loop_events:
  "\<exists>es. events (snd (collect_loop e cities (n, w))) = events w @ es"
proof (induction cities arbitrary: n w)
  case Nil
  show ?case by simp
next
  case (Cons city rest)
  let ?n1 = "if fst (collect_current_weather e w city) = Inr True then n + 1 else n"
  from after_city_events [of e w city] obtain es1 where
    a: "events (after_city e w city) = events w @ DbSelectCity city # es1" by blast
  from Cons.IH [of ?n1 "after_city e w city"] obtain es where
    "events (snd (collect_loop e rest (?n1, after_city e w city))) =
       events (after_city e w city) @ es" by blast
  with a show ?case
    unfolding collect_loop_step by simp
qed

lemma collect_loop_first_event:
  "\<exists>es. events (snd (collect_loop e (city # rest) (n, w))) = events w @ DbSelectCity city # es"
proof -
  let ?n1 = "if fst (collect_current_weather e w city) = Inr True then n + 1 else n"
  from after_city_events [of e w city] obtain es1 where
    a: "events (after_city e w city) = events w @ DbSelectCity city # es1" by blast
  from collect_loop_events [of e rest ?n1 "after_city e w city"] obtain es where
    "events (snd (collect_loop e rest (?n1, after_city e w city))) =
       events (after_city e w city) @ es" by blast
  with a show ?thesis
    unfolding collect_loop_step by simp
qed

lemma export_to_csv_events:
  "\<exists>es. events (snd (export_to_csv e w table output_dir)) = events w @ es"
  by (auto simp: export_to_csv_def Let_def split: if_splits)

lemma collect_all_current_events:
  "\<exists>es. events (snd (collect_all_current e w cities)) =
     events (snd (collect_loop e cities (0, logline InfoStartCycle w))) @ es"
proof -
  obtain k w1 where l: "collect_loop e cities (0, logline InfoStartCycle w) = (k, w1)"
    by (cases "collect_loop e cities (0, logline InfoStartCycle w)")
  let ?w2 = "logline (InfoCompleted k (length cities)) w1"
  from export_to_csv_events [of e ?w2 "''both''" "''data''"] obtain es where
    x: "events (snd (export_to_csv e ?w2 ''both'' ''data'')) = events w1 @ es"
    by auto
  show ?thesis
  proof (cases "0 < k")
    case True
    with x show ?thesis
      by (auto simp: collect_all_current_def l Let_def split: prod.splits sum.splits)
  next
    case False
    then show ?thesis
      by (simp add: collect_all_current_def l Let_def)
  qed
qed

section \<open>Properties of coordinate resolution\<close>

text \<open>
  Claim C1: resolving the same city twice gives the same coordinates, and the second
  call is served from the cache without a geocoding request, whether or not the
  canonical name equals the argument.

  The code reads the cache under the argument and writes it under the canonical name,
  so the claim holds when the two agree (lemma
  \<open>get_city_coordinates_repeat_when_names_agree\<close>) and fails otherwise. For the
  argument \<open>london\<close>, answered with the name \<open>London\<close>, the first call returns the
  coordinates; the second call misses the cache, asks the endpoint again, fails to
  insert a second row \<open>London\<close> and returns \<^verbatim>\<open>None\<close>.
\<close>

theorem second_resolution_of_london_fails:
  "fst (get_city_coordinates london_env empty_world ''london'') =
     Inr (Some \<lparr>c_city = ''London'', c_country = ''GB'', c_lat = 515 / 10, c_lon = - (1 / 10)\<rparr>)
   \<and> fst (get_city_coordinates london_env
            (snd (get_city_coordinates london_env empty_world ''london'')) ''london'') = Inr None
   \<and> events (snd (get_city_coordinates london_env
            (snd (get_city_coordinates london_env empty_world ''london'')) ''london'')) =
       [DbSelectCity ''london'', GeoCall ''london'', DbInsertCity,
        DbSelectCity ''london'', GeoCall ''london'', DbInsertCity]
   \<and> logged (snd (get_city_coordinates london_env
            (snd (get_city_coordinates london_env empty_world ''london'')) ''london'')) =
       [ErrCoordinates ''london'' IntegrityError]"
  by (simp add: london_env_def run_defs sample_defs)

text \<open>
  Claim C7, as amended: when the insertion into the cache fails on a duplicate key, no
  exception leaves the resolver and the table keeps the first writer's row unchanged
  (the losing insertion is discarded); the resolver logs the error and returns
  \<^verbatim>\<open>None\<close> for that call. It does not read the cache again.
\<close>

theorem duplicate_key_is_absorbed:
  assumes "\<not> db_fault e (tick w)"
    and "find (\<lambda>r. cc_city r = city) (city_coordinates w) = None"
    and "geocode e (Suc (tick w)) city = GeoOk (d # ds)"
    and "\<not> db_fault e (Suc (Suc (tick w)))"
    and "list_ex (\<lambda>r. cc_city r = g_name d) (city_coordinates w)"
  shows "\<exists>w'. get_city_coordinates e w city = (Inr None, w')
     \<and> city_coordinates w' = city_coordinates w
     \<and> current_weather w' = current_weather w
     \<and> historical_weather w' = historical_weather w
     \<and> logged w' = logged w @ [ErrCoordinates city IntegrityError]
     \<and> events w' = events w @ [DbSelectCity city, GeoCall city, DbInsertCity]"
  using assms by (simp add: get_city_coordinates_def Let_def)

text \<open>The cache holds \<open>London\<close>; \<open>london\<close> is resolved and answered with \<open>London\<close>.\<close>

theorem duplicate_key_witness:
  "\<not> db_fault london_env (tick london_cached)
   \<and> find (\<lambda>r. cc_city r = ''london'') (city_coordinates london_cached) = None
   \<and> geocode london_env (Suc (tick london_cached)) ''london'' =
       GeoOk [\<lparr>g_name = ''London'', g_country = ''GB'', g_lat = 515 / 10, g_lon = - (1 / 10)\<rparr>]
   \<and> \<not> db_fault london_env (Suc (Suc (tick london_cached)))
   \<and> list_ex (\<lambda>r. cc_city r = ''London'') (city_coordinates london_cached)
   \<and> fst (get_city_coordinates london_env london_cached ''london'') = Inr None
   \<and> city_coordinates (snd (get_city_coordinates london_env london_cached ''london'')) =
       [london_row]"
proof -
  have a: "\<not> db_fault london_env (tick london_cached)"
    and b: "find (\<lambda>r. cc_city r = ''london'') (city_coordinates london_cached) = None"
    and c: "geocode london_env (Suc (tick london_cached)) ''london'' =
       GeoOk (\<lparr>g_name = ''London'', g_country = ''GB'', g_lat = 515 / 10, g_lon = - (1 / 10)\<rparr> # [])"
    and d: "\<not> db_fault london_env (Suc (Suc (tick london_cached)))"
    and f: "list_ex (\<lambda>r. cc_city r = g_name \<lparr>g_name = ''London'', g_country = ''GB'',
         g_lat = 515 / 10, g_lon = - (1 / 10)\<rparr>) (city_coordinates london_cached)"
    by (simp_all add: london_cached_def sample_defs tick_def)
  have l: "city_coordinates london_cached = [london_row]"
    by (simp add: london_cached_def)
  from duplicate_key_is_absorbed [OF a b c d f] a b c d f show ?thesis
    unfolding l by auto
qed

text \<open>
  Claim C7 as stated fails there: the existing row for \<open>London\<close> is not returned, the
  call returns \<^verbatim>\<open>None\<close> and logs an error, and a second resolution logs a second
  error.
\<close>

theorem duplicate_key_returns_none_and_logs:
  "city_coordinates london_cached = [london_row]
   \<and> cc_city london_row = ''London''
   \<and> fst (get_city_coordinates london_env london_cached ''london'') = Inr None
   \<and> fst (get_city_coordinates london_env london_cached ''london'') \<noteq>
       Inr (Some \<lparr>c_city = ''London'', c_country = ''GB'', c_lat = 515 / 10, c_lon = - (1 / 10)\<rparr>)
   \<and> logged (snd (get_city_coordinates london_env london_cached ''london'')) =
       [ErrCoordinates ''london'' IntegrityError]
   \<and> logged (snd (get_city_coordinates london_env
        (snd (get_city_coordinates london_env london_cached ''london'')) ''london'')) =
       [ErrCoordinates ''london'' IntegrityError, ErrCoordinates ''london'' IntegrityError]"
  by (simp add: london_cached_def run_defs sample_defs)

section \<open>The collection cycle\<close>

text \<open>
  Claim C2: a cycle over \<open>N\<close> cities of which \<open>K\<close> are resolvable and fetchable
  reports \<open>succeeded = K\<close> out of \<open>attempted = N\<close> and appends exactly \<open>K\<close> rows to
  the table of current observations.

  The geocoding endpoint answers \<open>London\<close> and \<open>london\<close> with the city \<open>London\<close>, and
  the weather endpoint and the database never fail. A cycle over either name alone
  reports \<open>(1, 1)\<close>: each city is resolvable and fetchable. The cycle over both
  reports \<open>(1, 2)\<close> and stores one row: the resolution of \<open>london\<close> misses the cache,
  inserts \<open>London\<close> a second time and fails on the primary key.
\<close>

theorem cycle_undercounts_second_name_of_a_city:
  "summaries (logged (snd (collect_all_current london_env empty_world [''London'']))) = [(1, 1)]
   \<and> summaries (logged (snd (collect_all_current london_env empty_world [''london'']))) = [(1, 1)]
   \<and> summaries (logged (snd (collect_all_current london_env empty_world
        [''London'', ''london'']))) = [(1, 2)]
   \<and> length (current_weather (snd (collect_all_current london_env empty_world
        [''London'', ''london'']))) = 1
   \<and> logged (snd (collect_all_current london_env empty_world [''London'', ''london''])) =
       [InfoStartCycle, InfoCollectedCurrent ''London'',
        ErrCoordinates ''london'' IntegrityError, ErrNoCoordinates ''london'',
        InfoCompleted 1 2,
        InfoExported [''data/current_weather.csv'', ''data/historical_weather.csv'']]"
  by (simp add: run_defs sample_defs)

text \<open>
  Claim C6: a cycle over the single city \<open>Testville\<close>, which the cache does not hold
  and for which the geocoding endpoint returns no match, reports \<open>attempted = 1\<close>,
  \<open>succeeded = 0\<close>, leaves the three tables and the exported files as they were, and
  runs no export: the only events are the cache lookup, the geocoding request and the
  delay (the lookup alone when it raises).
\<close>

theorem testville_cycle_leaves_store_unchanged:
  assumes "find (\<lambda>r. cc_city r = ''Testville'') (city_coordinates w) = None"
    and "\<forall>t. geocode e t ''Testville'' = GeoOk []"
  shows "\<exists>w'. collect_all_current e w [''Testville''] = (None, w')
     \<and> summaries (logged w') = summaries (logged w) @ [(0, 1)]
     \<and> city_coordinates w' = city_coordinates w
     \<and> current_weather w' = current_weather w
     \<and> historical_weather w' = historical_weather w
     \<and> files w' = files w
     \<and> events w' = events w @
          (if db_fault e (tick w) then [DbSelectCity ''Testville'']
           else [DbSelectCity ''Testville'', GeoCall ''Testville'', Sleep (api_delay e)])"
proof (cases "db_fault e (tick w)")
  case True
  then have g: "get_city_coordinates e (logline InfoStartCycle w) ''Testville'' =
      (Inl OperationalError, emit (DbSelectCity ''Testville'') (logline InfoStartCycle w))"
    by (simp add: get_city_coordinates_def Let_def)
  show ?thesis
    using True
    by (simp add: collect_all_current_def collect_current_weather_def g Let_def
        summaries_append)
next
  case False
  with assms have g: "get_city_coordinates e (logline InfoStartCycle w) ''Testville'' =
      (Inr None, emit (GeoCall ''Testville'')
         (emit (DbSelectCity ''Testville'') (logline InfoStartCycle w)))"
    by (simp add: get_city_coordinates_def Let_def)
  show ?thesis
    using False
    by (simp add: collect_all_current_def collect_current_weather_def g Let_def
        summaries_append)
qed

text \<open>The scenario on an empty store.\<close>

theorem testville_cycle_witness:
  "find (\<lambda>r. cc_city r = ''Testville'') (city_coordinates empty_world) = None
   \<and> (\<forall>t. geocode no_match_env t ''Testville'' = GeoOk [])
   \<and> summaries (logged (snd (collect_all_current no_match_env empty_world [''Testville''])))
       = [(0, 1)]
   \<and> current_weather (snd (collect_all_current no_match_env empty_world [''Testville''])) = []
   \<and> files (snd (collect_all_current no_match_env empty_world [''Testville''])) = Map.empty"
proof -
  have a: "find (\<lambda>r. cc_city r = ''Testville'') (city_coordinates empty_world) = None"
    by (simp add: empty_world_def)
  have b: "\<forall>t. geocode no_match_env t ''Testville'' = GeoOk []"
    by (simp add: no_match_env_def mk_env_def no_match_geocode_def)
  have e: "summaries (logged empty_world) = []" "current_weather empty_world = []"
    "files empty_world = Map.empty"
    by (simp_all add: empty_world_def)
  from testville_cycle_leaves_store_unchanged [OF a b] a b show ?thesis
    unfolding e by auto
qed

text \<open>
  Claim C8, as amended: a failed insertion into the table of current observations does
  not crash the cycle. It is caught by the handler that also catches a failed request
  and a missing field: the handler logs \<open>ErrCurrent\<close> with the exception and the call
  returns \<^verbatim>\<open>False\<close>; no row is added, the city is not counted, the delay is applied
  and the cycle goes on with the remaining cities. The three kinds of failure differ
  in the exception of the log line only.
\<close>

theorem failure_inside_the_handler:
  assumes res: "get_city_coordinates e w city = (Inr (Some co), w1)"
    and fail: "weather e (tick w1) (c_lat co) (c_lon co) = HttpError x
       \<or> (\<exists>d. weather e (tick w1) (c_lat co) (c_lon co) = HttpOk d \<and> weather_data e co d = Inl x)
       \<or> (\<exists>d row. weather e (tick w1) (c_lat co) (c_lon co) = HttpOk d
             \<and> weather_data e co d = Inr row \<and> db_fault e (Suc (tick w1))
             \<and> x = OperationalError)"
  shows "\<exists>w2. collect_current_weather e w city = (Inr False, logline (ErrCurrent city x) w2)
     \<and> current_weather w2 = current_weather w
     \<and> collect_loop e (city # rest) (n, w) =
         collect_loop e rest (n, emit (Sleep (api_delay e)) (logline (ErrCurrent city x) w2))"
proof -
  note fr = get_city_coordinates_frame(1) [OF res]
  from fail consider
    (http) "weather e (tick w1) (c_lat co) (c_lon co) = HttpError x"
    | (field) d where "weather e (tick w1) (c_lat co) (c_lon co) = HttpOk d"
        "weather_data e co d = Inl x"
    | (store) d row where "weather e (tick w1) (c_lat co) (c_lon co) = HttpOk d"
        "weather_data e co d = Inr row" "db_fault e (Suc (tick w1))" "x = OperationalError"
    by blast
  then show ?thesis
  proof cases
    case http
    let ?w2 = "emit (WeatherCall (c_lat co) (c_lon co)) w1"
    have c: "collect_current_weather e w city = (Inr False, logline (ErrCurrent city x) ?w2)"
      by (simp add: collect_current_weather_def res http Let_def)
    show ?thesis
      by (rule exI [of _ ?w2]) (simp add: c fr)
  next
    case field
    let ?w2 = "emit (WeatherCall (c_lat co) (c_lon co)) w1"
    have c: "collect_current_weather e w city = (Inr False, logline (ErrCurrent city x) ?w2)"
      by (simp add: collect_current_weather_def res field Let_def)
    show ?thesis
      by (rule exI [of _ ?w2]) (simp add: c fr)
  next
    case store
    let ?w2 = "emit DbInsertCurrent (emit (WeatherCall (c_lat co) (c_lon co)) w1)"
    have c: "collect_current_weather e w city = (Inr False, logline (ErrCurrent city x) ?w2)"
      by (simp add: collect_current_weather_def res store Let_def store_current_weather_cases)
    show ?thesis
      by (rule exI [of _ ?w2]) (simp add: c fr)
  qed
qed

text \<open>The insertion for \<open>Paris\<close> fails; the cycle goes on to \<open>Rome\<close> and reports
  \<open>(1, 2)\<close>.\<close>

theorem failure_inside_the_handler_witness:
  "get_city_coordinates store_fault_env empty_world ''Paris'' = (Inr (Some paris), paris_world)
   \<and> weather store_fault_env (tick paris_world) (c_lat paris) (c_lon paris) = HttpOk sample_json
   \<and> (\<exists>row. weather_data store_fault_env paris sample_json = Inr row)
   \<and> db_fault store_fault_env (Suc (tick paris_world))
   \<and> fst (collect_current_weather store_fault_env empty_world ''Paris'') = Inr False
   \<and> current_weather (snd (collect_current_weather store_fault_env empty_world ''Paris'')) = []
   \<and> logged (snd (collect_current_weather store_fault_env empty_world ''Paris'')) =
       [ErrCurrent ''Paris'' OperationalError]
   \<and> summaries (logged (snd (collect_all_current store_fault_env empty_world
        [''Paris'', ''Rome'']))) = [(1, 2)]"
proof -
  have g: "get_city_coordinates store_fault_env empty_world ''Paris'' =
      (Inr (Some paris), paris_world)"
    by (simp add: store_fault_env_def paris_def paris_world_def run_defs sample_defs)
  have h: "weather store_fault_env (tick paris_world) (c_lat paris) (c_lon paris) =
      HttpOk sample_json"
    by (simp add: store_fault_env_def mk_env_def)
  obtain row where d: "weather_data store_fault_env paris sample_json = Inr row"
    by (simp add: store_fault_env_def run_defs sample_defs)
  have f: "db_fault store_fault_env (Suc (tick paris_world))"
    by (simp add: store_fault_env_def mk_env_def paris_world_def tick_def)
  have "weather store_fault_env (tick paris_world) (c_lat paris) (c_lon paris) =
          HttpError OperationalError
       \<or> (\<exists>d. weather store_fault_env (tick paris_world) (c_lat paris) (c_lon paris) = HttpOk d
             \<and> weather_data store_fault_env paris d = Inl OperationalError)
       \<or> (\<exists>d row. weather store_fault_env (tick paris_world) (c_lat paris) (c_lon paris) = HttpOk d
             \<and> weather_data store_fault_env paris d = Inr row
             \<and> db_fault store_fault_env (Suc (tick paris_world))
             \<and> OperationalError = OperationalError)"
    using h d f by blast
  from failure_inside_the_handler [OF g this, of "[''Rome'']" 0] obtain w2 where
    c: "collect_current_weather store_fault_env empty_world ''Paris'' =
          (Inr False, logline (ErrCurrent ''Paris'' OperationalError) w2)"
    and r: "current_weather w2 = current_weather empty_world"
    by blast
  have l: "logged (snd (collect_current_weather store_fault_env empty_world ''Paris'')) =
       [ErrCurrent ''Paris'' OperationalError]"
    by (simp add: store_fault_env_def run_defs sample_defs)
  have s: "summaries (logged (snd (collect_all_current store_fault_env empty_world
        [''Paris'', ''Rome'']))) = [(1, 2)]"
    by (simp add: store_fault_env_def run_defs sample_defs)
  from c r have "fst (collect_current_weather store_fault_env empty_world ''Paris'') = Inr False"
    "current_weather (snd (collect_current_weather store_fault_env empty_world ''Paris'')) = []"
    by (simp_all add: empty_world_def)
  with g h d f l s show ?thesis by blast
qed

text \<open>
  Claim C8 as stated fails: a storage failure and a fetch failure give the same return
  value, the same logging statement and the same summary of the cycle.
\<close>

theorem storage_failure_reported_like_fetch_failure:
  "fst (collect_current_weather store_fault_env empty_world ''Paris'') =
     fst (collect_current_weather fetch_fail_env empty_world ''Paris'')
   \<and> logged (snd (collect_current_weather store_fault_env empty_world ''Paris'')) =
       [ErrCurrent ''Paris'' OperationalError]
   \<and> logged (snd (collect_current_weather fetch_fail_env empty_world ''Paris'')) =
       [ErrCurrent ''Paris'' RequestError]
   \<and> map log_statement (logged (snd (collect_current_weather store_fault_env empty_world ''Paris''))) =
       map log_statement (logged (snd (collect_current_weather fetch_fail_env empty_world ''Paris'')))
   \<and> summaries (logged (snd (collect_all_current store_fault_env empty_world [''Paris'']))) =
       summaries (logged (snd (collect_all_current fetch_fail_env empty_world [''Paris''])))"
  by (simp add: store_fault_env_def fetch_fail_env_def run_defs sample_defs)

text \<open>
  Claim C9, as amended: the delay follows at once the processing of every city whose
  call returns, with \<^verbatim>\<open>True\<close> or with \<^verbatim>\<open>False\<close> (no coordinates, failed
  request, failed store), and the attempt of the next city comes after it. When the
  call raises, the cycle goes on to the next city without the delay. Here \<open>w\<close> is the
  world in which the city's turn comes and \<open>w1\<close> the world in which its call ends.
\<close>

theorem delay_follows_every_returning_city:
  assumes st: "collect_loop e before (0, logline InfoStartCycle w0) = (n, w)"
    and ret: "collect_current_weather e w city = (r, w1)"
  shows "\<exists>later. events (snd (collect_all_current e w0 (before @ city # rest))) =
           events w1 @ (case r of Inr ok \<Rightarrow> [Sleep (api_delay e)] | Inl x \<Rightarrow> []) @ later
         \<and> (case rest of [] \<Rightarrow> True | nxt # others \<Rightarrow> \<exists>es. later = DbSelectCity nxt # es)"
proof -
  let ?n1 = "case r of Inr ok \<Rightarrow> if ok then n + 1 else n | Inl x \<Rightarrow> n"
  let ?w2 = "case r of Inr ok \<Rightarrow> emit (Sleep (api_delay e)) w1
             | Inl x \<Rightarrow> logline (ErrCycle city x) w1"
  have loop: "collect_loop e (before @ city # rest) (0, logline InfoStartCycle w0) =
      collect_loop e rest (?n1, ?w2)"
    unfolding collect_loop_append st using ret by (cases r) simp_all
  have w2: "events ?w2 = events w1 @ (case r of Inr ok \<Rightarrow> [Sleep (api_delay e)] | Inl x \<Rightarrow> [])"
    by (cases r) simp_all
  from collect_all_current_events [of e w0 "before @ city # rest"] obtain es2 where
    all: "events (snd (collect_all_current e w0 (before @ city # rest))) =
       events (snd (collect_loop e rest (?n1, ?w2))) @ es2"
    unfolding loop by blast
  show ?thesis
  proof (cases rest)
    case Nil
    with all w2 show ?thesis by simp
  next
    case (Cons nxt others)
    from collect_loop_first_event [of e nxt others ?n1 ?w2] obtain es where
      "events (snd (collect_loop e (nxt # others) (?n1, ?w2))) =
         events ?w2 @ DbSelectCity nxt # es" by blast
    with all Cons w2 show ?thesis by simp
  qed
qed

text \<open>The geocoding endpoint does not know \<open>Beta\<close>: the delay follows its failed
  resolution and precedes the attempt of \<open>Gamma\<close>.\<close>

theorem delay_witness:
  "collect_loop no_beta_env [''Alpha''] (0, logline InfoStartCycle empty_world) =
     (fst (collect_loop no_beta_env [''Alpha''] (0, logline InfoStartCycle empty_world)),
      snd (collect_loop no_beta_env [''Alpha''] (0, logline InfoStartCycle empty_world)))
   \<and> fst (collect_current_weather no_beta_env
        (snd (collect_loop no_beta_env [''Alpha''] (0, logline InfoStartCycle empty_world)))
        ''Beta'') = Inr False
   \<and> events (snd (collect_all_current no_beta_env empty_world [''Alpha'', ''Beta'', ''Gamma''])) =
       [DbSelectCity ''Alpha'', GeoCall ''Alpha'', DbInsertCity, WeatherCall 10 20,
        DbInsertCurrent, Sleep 1,
        DbSelectCity ''Beta'', GeoCall ''Beta'', Sleep 1,
        DbSelectCity ''Gamma'', GeoCall ''Gamma'', DbInsertCity, WeatherCall 10 20,
        DbInsertCurrent, Sleep 1, DbReadCurrent, DbReadHistorical]"
proof -
  let ?s = "collect_loop no_beta_env [''Alpha''] (0, logline InfoStartCycle empty_world)"
  let ?c = "collect_current_weather no_beta_env (snd ?s) ''Beta''"
  have st: "?s = (fst ?s, snd ?s)" by simp
  have ok: "fst ?c = Inr False"
    by (simp add: run_defs sample_defs)
  then have ret: "?c = (Inr False, snd ?c)"
    by (metis prod.collapse)
  have ev: "events (snd ?c) =
      [DbSelectCity ''Alpha'', GeoCall ''Alpha'', DbInsertCity, WeatherCall 10 20,
        DbInsertCurrent, Sleep 1, DbSelectCity ''Beta'', GeoCall ''Beta'']"
    by (simp add: run_defs sample_defs)
  have full: "events (snd (collect_all_current no_beta_env empty_world
        [''Alpha'', ''Beta'', ''Gamma''])) =
       [DbSelectCity ''Alpha'', GeoCall ''Alpha'', DbInsertCity, WeatherCall 10 20,
        DbInsertCurrent, Sleep 1,
        DbSelectCity ''Beta'', GeoCall ''Beta'', Sleep 1,
        DbSelectCity ''Gamma'', GeoCall ''Gamma'', DbInsertCity, WeatherCall 10 20,
        DbInsertCurrent, Sleep 1, DbReadCurrent, DbReadHistorical]"
    by (simp add: run_defs sample_defs)
  from delay_follows_every_returning_city [OF st ret, of "[''Gamma'']"] obtain later where
    "events (snd (collect_all_current no_beta_env empty_world
        ([''Alpha''] @ ''Beta'' # [''Gamma'']))) =
       events (snd ?c) @ [Sleep (api_delay no_beta_env)] @ later"
    by auto
  with st ok full show ?thesis by simp
qed

text \<open>
  Claim C9 as stated fails: the cache lookup of \<open>Alpha\<close> raises, and the attempt of
  \<open>Beta\<close> follows with no delay between the two.
\<close>

theorem no_delay_after_lookup_fault:
  "events (snd (collect_all_current select_fault_env empty_world [''Alpha'', ''Beta''])) =
     [DbSelectCity ''Alpha'',
      DbSelectCity ''Beta'', GeoCall ''Beta'', DbInsertCity, WeatherCall 10 20,
      DbInsertCurrent, Sleep 1, DbReadCurrent, DbReadHistorical]
   \<and> logged (snd (collect_all_current select_fault_env empty_world [''Alpha'', ''Beta''])) =
     [InfoStartCycle, ErrCycle ''Alpha'' OperationalError, InfoCollectedCurrent ''Beta'',
      InfoCompleted 1 2,
      InfoExported [''data/current_weather.csv'', ''data/historical_weather.csv'']]"
  by (simp add: select_fault_env_def run_defs sample_defs)

section \<open>The synthetic historical collection\<close>





text \<open>
  Claim C4, as amended: every row that \<^verbatim>\<open>collect_historical_weather\<close> adds to the
  historical table has its humidity and its cloud cover in \<open>[0, 100]\<close>, whatever
  numbers the response holds, \<^verbatim>\<open>NaN\<close> and the infinities included. Its wind
  direction is in \<open>[0, 360)\<close> when the response gives a whole number or none; when the
  response gives a float, the stored wind direction is in \<open>[0, 360]\<close>, the value
  \<open>360.0\<close> included, or is \<^verbatim>\<open>NaN\<close>.
\<close>

theorem synthetic_rows_in_range:
  "\<forall>r \<in> set (drop (length (historical_weather w))
       (historical_weather (snd (collect_historical_weather e w city days_back)))).
     py_le (PInt 0) (hw_humidity r) \<and> py_le (hw_humidity r) (PInt 100) \<and>
     py_le (PInt 0) (hw_cloud_cover r) \<and> py_le (hw_cloud_cover r) (PInt 100) \<and>
     (case hw_wind_direction r of
        PInt n \<Rightarrow> 0 \<le> n \<and> n < 360
      | PFloat (Finite x) \<Rightarrow> 0 \<le> x \<and> x \<le> 360
      | PFloat NaN \<Rightarrow> True
      | PFloat g \<Rightarrow> False)"
proof -
  obtain r1 w1 where g: "get_city_coordinates e w city = (r1, w1)"
    by (cases "get_city_coordinates e w city")
  note fr = get_city_coordinates_frame [OF g]
  have "\<exists>new. historical_weather (snd (collect_historical_weather e w city days_back)) =
      historical_weather w @ new \<and> list_all in_range new"
  proof (cases r1)
    case (Inl x)
    with g fr(2) show ?thesis by (simp add: collect_historical_weather_def)
  next
    case (Inr c)
    show ?thesis
    proof (cases c)
      case None
      with Inr g fr(2) show ?thesis by (simp add: collect_historical_weather_def)
    next
      case (Some co)
      from historical_loop_result [of e co city "[0..<nat days_back]" 0 w1]
      obtain k w2 new where
        "historical_loop e co city [0..<nat days_back] (0, w1) = (k, w2)"
        "historical_weather w2 = historical_weather w1 @ new" "list_all in_range new"
        by blast
      with Some Inr g fr(2) show ?thesis by (simp add: collect_historical_weather_def)
    qed
  qed
  then obtain new where n: "historical_weather (snd (collect_historical_weather e w city days_back)) =
      historical_weather w @ new" and a: "list_all in_range new" by blast
  from a have "\<forall>r \<in> set new. in_range r" by (simp add: list_all_iff)
  then show ?thesis
    unfolding n in_range_def by simp
qed

text \<open>A response with humidity \<open>-500\<close>, cloud cover infinite and wind direction
  \<open>-725\<close>, over three days.\<close>

theorem synthetic_rows_in_range_witness:
  "map hw_humidity
     (drop (length (historical_weather empty_world))
        (historical_weather (snd (collect_historical_weather extreme_env empty_world ''Paris'' 3))))
     = [PInt 0, PInt 0, PInt 0]
   \<and> map hw_cloud_cover
     (drop (length (historical_weather empty_world))
        (historical_weather (snd (collect_historical_weather extreme_env empty_world ''Paris'' 3))))
     = [PInt 100, PInt 100, PInt 100]
   \<and> map hw_wind_direction
     (drop (length (historical_weather empty_world))
        (historical_weather (snd (collect_historical_weather extreme_env empty_world ''Paris'' 3))))
     = [PInt 355, PInt 357, PInt 359]"
  using synthetic_rows_in_range [of empty_world extreme_env "''Paris''" 3]
  by (simp add: extreme_env_def run_defs sample_defs upt_rec int_to_float_small
      py_min_def py_max_def py_lt_def)

text \<open>
  Claim C4 as stated fails for a float wind direction: \<^verbatim>\<open>-8.470329472543003e-22\<close>
  is stored as \<open>360.0\<close>, which is not below \<open>360\<close>, and \<^verbatim>\<open>1e999\<close> is stored as
  \<^verbatim>\<open>NaN\<close>, which is neither below \<open>360\<close> nor at least \<open>0\<close>.
\<close>

theorem float_wind_direction_leaves_range:
  "map hw_wind_direction
     (historical_weather (snd (collect_historical_weather tiny_deg_env empty_world ''Paris'' 1)))
     = [PFloat (Finite 360)]
   \<and> \<not> py_lt (PFloat (Finite 360)) (PInt 360)
   \<and> map hw_wind_direction
     (historical_weather (snd (collect_historical_weather inf_deg_env empty_world ''Paris'' 1)))
     = [PFloat NaN]
   \<and> \<not> py_lt (PFloat NaN) (PInt 360)
   \<and> \<not> py_le (PInt 0) (PFloat NaN)"
  by (simp add: tiny_deg_env_def inf_deg_env_def tiny_deg_json_def inf_deg_json_def
      run_defs sample_defs int_to_float_small fl_neg_tiny float_rem_tiny
      py_lt_def py_le_def)

text \<open>
  Claim C10, as amended: for \<open>days_back \<le> 0\<close> the routine makes no current-weather
  request and adds no historical row; it is the coordinate resolution followed, when
  that returns, by one log line. It returns \<^verbatim>\<open>False\<close> whenever the resolution returns, with or without
  coordinates, and raises when the cache lookup raises.
\<close>

theorem no_days_no_fetch:
  assumes "days_back \<le> 0"
  shows "collect_historical_weather e w city days_back =
       (case get_city_coordinates e w city of
          (Inl x, w1) \<Rightarrow> (Inl x, w1)
        | (Inr None, w1) \<Rightarrow> (Inr False, logline (ErrNoCoordinates city) w1)
        | (Inr (Some co), w1) \<Rightarrow>
            (Inr False, logline (InfoCollectedHistorical 0 days_back city) w1))
     \<and> fst (collect_historical_weather e w city days_back) =
         (if db_fault e (tick w) then Inl OperationalError else Inr False)
     \<and> weather_calls (events (snd (collect_historical_weather e w city days_back))) =
         weather_calls (events w)
     \<and> historical_weather (snd (collect_historical_weather e w city days_back)) =
         historical_weather w"
proof -
  obtain r1 w1 where g: "get_city_coordinates e w city = (r1, w1)"
    by (cases "get_city_coordinates e w city")
  note fr = get_city_coordinates_frame [OF g]
  from assms have n: "nat days_back = 0" by simp
  have eq: "collect_historical_weather e w city days_back =
       (case get_city_coordinates e w city of
          (Inl x, w1) \<Rightarrow> (Inl x, w1)
        | (Inr None, w1) \<Rightarrow> (Inr False, logline (ErrNoCoordinates city) w1)
        | (Inr (Some co), w1) \<Rightarrow>
            (Inr False, logline (InfoCollectedHistorical 0 days_back city) w1))"
    by (simp add: collect_historical_weather_def n split: prod.splits sum.splits option.splits)
  have f: "r1 = (if db_fault e (tick w) then Inl OperationalError
      else Inr (case r1 of Inr c \<Rightarrow> c | Inl x \<Rightarrow> None))"
    using get_city_coordinates_fault [of e w city] g by simp
  have "fst (collect_historical_weather e w city days_back) =
         (if db_fault e (tick w) then Inl OperationalError else Inr False)"
    unfolding eq g using f by (cases r1) (auto split: option.splits if_splits)
  moreover have "weather_calls (events (snd (collect_historical_weather e w city days_back))) =
         weather_calls (events w)"
    unfolding eq g using fr(5) by (cases r1) (auto split: option.splits)
  moreover have "historical_weather (snd (collect_historical_weather e w city days_back)) =
         historical_weather w"
    unfolding eq g using fr(2) by (cases r1) (auto split: option.splits)
  ultimately show ?thesis using eq by blast
qed

text \<open>With \<open>days_back = -3\<close> on an empty store: one geocoding request, the city
  cached, no weather request, \<^verbatim>\<open>False\<close>.\<close>

theorem no_days_witness:
  "(- 3 :: int) \<le> 0
   \<and> collect_historical_weather ok_env empty_world ''Paris'' (- 3) =
       (Inr False, logline (InfoCollectedHistorical 0 (- 3) ''Paris'') paris_world)
   \<and> weather_calls (events (snd (collect_historical_weather ok_env empty_world ''Paris'' (- 3)))) = 0
   \<and> geo_calls (events (snd (collect_historical_weather ok_env empty_world ''Paris'' (- 3)))) = 1"
proof -
  have a: "(- 3 :: int) \<le> 0" by simp
  have g: "get_city_coordinates ok_env empty_world ''Paris'' = (Inr (Some paris), paris_world)"
    by (simp add: ok_env_def paris_def paris_world_def run_defs sample_defs)
  have e: "weather_calls (events empty_world) = 0"
    "geo_calls (events (logline (InfoCollectedHistorical 0 (- 3) ''Paris'') paris_world)) = 1"
    by (simp_all add: empty_world_def paris_world_def geo_calls_def)
  from no_days_no_fetch [OF a, of ok_env empty_world "''Paris''"] a show ?thesis
    unfolding g e by (simp add: e paris_world_def geo_calls_def)
qed

text \<open>Claim C10 as stated fails when the cache lookup raises: the routine does not
  return \<^verbatim>\<open>False\<close>.\<close>

theorem no_days_raises_on_lookup_fault:
  "collect_historical_weather select_fault_env empty_world ''Paris'' 0 =
     (Inl OperationalError, emit (DbSelectCity ''Paris'') empty_world)
   \<and> fst (collect_historical_weather select_fault_env empty_world ''Paris'' 0) \<noteq> Inr False"
  by (simp add: select_fault_env_def run_defs sample_defs)

end
